theory Spec2Isabelle
  imports Complex_Main "HOL-Library.Multiset" "HOL-Library.Log_Nat"
begin

section \<open>Numbers of the source language\<close>

text \<open>
  A JavaScript number is an IEEE 754 double. Where a number holds an integer and every
  intermediate value stays below \<open>2^53\<close> in magnitude, the arithmetic of the source is
  exact and the number is modelled as an \<^typ>\<open>int\<close>. A quotient, and a product with a
  quotient, is not exact: the result is the double nearest to the exact value, the one
  with the even significand when two are equally near. A double is represented by the
  rational number it denotes. The numbers met in the controllers are far from both ends
  of the exponent range, so neither subnormal numbers nor infinities are modelled.
\<close>

text \<open>The integer nearest to \<open>q\<close>, the even one of the two when \<open>q\<close> lies halfway.\<close>

definition roundEven :: "rat \<Rightarrow> int" where
  "roundEven q =
     (let n = \<lfloor>q\<rfloor>; f = q - of_int n
      in if f < 1 / 2 then n else if 1 / 2 < f then n + 1 else if even n then n else n + 1)"

text \<open>The binary exponent of a positive number: the \<open>e\<close> with \<open>2^e \<le> x < 2^(e+1)\<close>.\<close>

definition exponentOf :: "rat \<Rightarrow> int" where
  "exponentOf x = (if 1 \<le> x then bitlen \<lfloor>x\<rfloor> - 1 else - bitlen (\<lceil>1 / x\<rceil> - 1))"

text \<open>Rounding to 53 significant bits: the doubles between \<open>2^e\<close> and \<open>2^(e+1)\<close> are the
  multiples of \<open>2^(e-52)\<close>.\<close>

definition roundPos :: "rat \<Rightarrow> rat" where
  "roundPos x = (let u = 2 powi (exponentOf x - 52) in of_int (roundEven (x / u)) * u)"

definition toDouble :: "rat \<Rightarrow> rat" where
  "toDouble x = (if x = 0 then 0 else if 0 < x then roundPos x else - roundPos (- x))"

text \<open>\<^verbatim>\<open>x / y\<close> and \<^verbatim>\<open>x * y\<close> on doubles.\<close>

definition fdiv :: "rat \<Rightarrow> rat \<Rightarrow> rat" where
  "fdiv x y = toDouble (x / y)"

definition fmul :: "rat \<Rightarrow> rat \<Rightarrow> rat" where
  "fmul x y = toDouble (x * y)"

section \<open>Seeded shuffle utility\<close>

text \<open>
  The two controllers (\<^verbatim>\<open>quiz.controller.js\<close> and the mock-test controller) carry
  the same pair of helpers, \<^verbatim>\<open>createSeededRandom\<close> and \<^verbatim>\<open>shuffleArray\<close>, character
  for character; one embedding serves both.

  Every intermediate value of the hash loop and of the congruence step is an integer
  below \<open>2^53\<close> in magnitude (the hash has 32 bits, so \<open>hash * 9301 + 49297\<close> stays below
  \<open>2^45\<close>). The quotient \<^verbatim>\<open>hash / 233280\<close> and the product \<^verbatim>\<open>random() * (i + 1)\<close> are
  rounded. Strings are lists of code units; \<^typ>\<open>char\<close> covers the code units below 256.
\<close>

subsection \<open>Integer operators of the source language\<close>

text \<open>\<^verbatim>\<open>x & x\<close> and the operands of \<^verbatim>\<open><<\<close>: conversion to a signed 32-bit integer.\<close>

definition toInt32 :: "int \<Rightarrow> int" where
  "toInt32 x = (x + 2147483648) mod 4294967296 - 2147483648"

text \<open>\<^verbatim>\<open>x << 5\<close>: the operand is converted to 32 bits, shifted, and the result wraps.\<close>

definition shiftLeft5 :: "int \<Rightarrow> int" where
  "shiftLeft5 x = toInt32 (toInt32 x * 32)"

text \<open>\<^verbatim>\<open>a % b\<close>: the remainder takes the sign of the dividend (truncating division).\<close>

definition js_rem :: "int \<Rightarrow> int \<Rightarrow> int" where
  "js_rem a b = sgn a * (\<bar>a\<bar> mod \<bar>b\<bar>)"

subsection \<open>The generator\<close>

text \<open>
  \<^verbatim>\<open>
  let hash = 0;
  for (let i = 0; i < seed.length; i++) {
    const char = seed.charCodeAt(i);
    hash = ((hash << 5) - hash) + char;
    hash = hash & hash; // Convert to 32-bit integer
  }
  \<close>
\<close>

fun hashLoop :: "int \<Rightarrow> string \<Rightarrow> int" where
  "hashLoop hash [] = hash"
| "hashLoop hash (c # cs) = hashLoop (toInt32 ((shiftLeft5 hash - hash) + of_char c)) cs"

text \<open>
  The closure returned by \<^verbatim>\<open>createSeededRandom\<close> owns the variable \<^verbatim>\<open>hash\<close> and
  nothing else: the generator is represented by the current value of that variable.
\<close>

definition createSeededRandom :: "string \<Rightarrow> int" where
  "createSeededRandom seed = hashLoop 0 seed"

text \<open>
  One call of the closure: \<^verbatim>\<open>hash = (hash * 9301 + 49297) % 233280; return hash / 233280\<close>.
  The result is the emitted value and the new content of \<^verbatim>\<open>hash\<close>.
\<close>

definition random_js :: "int \<Rightarrow> rat \<times> int" where
  "random_js hash =
     (let hash' = js_rem (hash * 9301 + 49297) 233280
      in (fdiv (of_int hash') 233280, hash'))"

text \<open>The value emitted by call number \<open>n\<close> (counting from 0) of a generator created from a seed.\<close>

fun advance :: "nat \<Rightarrow> int \<Rightarrow> int" where
  "advance 0 hash = hash"
| "advance (Suc n) hash = advance n (snd (random_js hash))"

definition emitted :: "string \<Rightarrow> nat \<Rightarrow> rat" where
  "emitted seed n = fst (random_js (advance n (createSeededRandom seed)))"

subsection \<open>Arrays of the source language\<close>

text \<open>
  An array has its indexed elements, each possibly \<^verbatim>\<open>undefined\<close> (\<open>None\<close>), and, like
  every object, further properties: writing \<^verbatim>\<open>a[-2] = v\<close> creates the property
  \<^verbatim>\<open>"-2"\<close> and leaves the indexed elements alone; reading a property that was never
  written gives \<^verbatim>\<open>undefined\<close>. Writing at or beyond the length extends the array.
\<close>

record 'a jsarray =
  elems :: "'a option list"
  props :: "(int \<times> 'a option) list"

definition arr_get :: "'a jsarray \<Rightarrow> int \<Rightarrow> 'a option" where
  "arr_get a k =
     (if 0 \<le> k \<and> k < int (length (elems a)) then elems a ! nat k
      else (case map_of (props a) k of Some v \<Rightarrow> v | None \<Rightarrow> None))"

definition arr_set :: "'a jsarray \<Rightarrow> int \<Rightarrow> 'a option \<Rightarrow> 'a jsarray" where
  "arr_set a k v =
     (if 0 \<le> k \<and> k < int (length (elems a)) then a\<lparr>elems := (elems a)[nat k := v]\<rparr>
      else if int (length (elems a)) \<le> k
        then a\<lparr>elems := elems a @ replicate (nat k - length (elems a)) None @ [v]\<rparr>
      else a\<lparr>props := (k, v) # props a\<rparr>)"

subsection \<open>The Fisher--Yates pass\<close>

text \<open>
  \<^verbatim>\<open>
  const shuffled = [...array];
  for (let i = shuffled.length - 1; i > 0; i--) {
    const j = Math.floor(random() * (i + 1));
    [shuffled[i], shuffled[j]] = [shuffled[j], shuffled[i]];
  }
  return shuffled;
  \<close>
  The two lines of the loop body come first: the swap index computed from the value
  \<open>r\<close> that \<^verbatim>\<open>random()\<close> returned, and the destructuring assignment, which reads both
  elements, then writes index \<open>i\<close>, then \<open>j\<close>.
\<close>

definition swapIndex :: "rat \<Rightarrow> nat \<Rightarrow> int" where
  "swapIndex r i = \<lfloor>fmul r (of_nat (i + 1))\<rfloor>"

definition swapElements :: "'a jsarray \<Rightarrow> nat \<Rightarrow> int \<Rightarrow> 'a jsarray" where
  "swapElements shuffled i j =
     (let atj = arr_get shuffled j;
          ati = arr_get shuffled (int i)
      in arr_set (arr_set shuffled (int i) atj) j ati)"

text \<open>
  The first argument of \<open>shuffleLoop\<close> is the loop variable \<open>i\<close>; the loop stops at 0.
  The generator is threaded through: the function returns the array and the content of
  the generator's \<^verbatim>\<open>hash\<close> after the pass. The argument is the list of the indexed
  elements of \<^verbatim>\<open>array\<close>, which the spread copies.
\<close>

fun shuffleLoop :: "nat \<Rightarrow> 'a jsarray \<Rightarrow> int \<Rightarrow> 'a jsarray \<times> int" where
  "shuffleLoop 0 shuffled hash = (shuffled, hash)"
| "shuffleLoop (Suc k) shuffled hash =
     (let i = Suc k;
          (r, hash') = random_js hash;
          j = swapIndex r i
      in shuffleLoop k (swapElements shuffled i j) hash')"

definition shuffleArray :: "'a option list \<Rightarrow> int \<Rightarrow> 'a jsarray \<times> int" where
  "shuffleArray array hash =
     shuffleLoop (length array - 1) \<lparr>elems = array, props = []\<rparr> hash"

subsection \<open>The generator as an object of the running program\<close>

text \<open>
  In the running program a generator is a closure: each call of \<^verbatim>\<open>createSeededRandom\<close>
  allocates a fresh variable \<^verbatim>\<open>hash\<close>, which starts with the hash of the seed, and
  each call of the closure reads and writes that variable. The state of the program, as far as a computation could depend on it,
  consists of the reading of the clock (\<^verbatim>\<open>Date.now()\<close>), the values that the calls of
  \<^verbatim>\<open>Math.random()\<close> still to come will return, and the variables of the closures
  created so far; a generator is the address of its variable.
\<close>

record runtime =
  rt_clock :: int
  rt_entropy :: "rat list"
  rt_cells :: "nat \<Rightarrow> int"
  rt_next :: nat

definition createSeededRandomIn :: "string \<Rightarrow> runtime \<Rightarrow> nat \<times> runtime" where
  "createSeededRandomIn seed w =
     (rt_next w,
      w\<lparr>rt_cells := (rt_cells w)(rt_next w := createSeededRandom seed),
        rt_next := Suc (rt_next w)\<rparr>)"

definition callRandom :: "nat \<Rightarrow> runtime \<Rightarrow> rat \<times> runtime" where
  "callRandom random w =
     (let (r, hash') = random_js (rt_cells w random)
      in (r, w\<lparr>rt_cells := (rt_cells w)(random := hash')\<rparr>))"

fun shuffleLoopIn :: "nat \<Rightarrow> 'a jsarray \<Rightarrow> nat \<Rightarrow> runtime \<Rightarrow> 'a jsarray \<times> runtime" where
  "shuffleLoopIn 0 shuffled random w = (shuffled, w)"
| "shuffleLoopIn (Suc k) shuffled random w =
     (let i = Suc k;
          (r, w') = callRandom random w;
          j = swapIndex r i
      in shuffleLoopIn k (swapElements shuffled i j) random w')"

definition shuffleArrayIn :: "'a option list \<Rightarrow> nat \<Rightarrow> runtime \<Rightarrow> 'a jsarray \<times> runtime" where
  "shuffleArrayIn array random w =
     shuffleLoopIn (length array - 1) \<lparr>elems = array, props = []\<rparr> random w"

text \<open>
  The call site in \<^verbatim>\<open>getQuizById\<close> and \<^verbatim>\<open>getMockTestById\<close>:
  \<^verbatim>\<open>const random = createSeededRandom(seed); questions = shuffleArray(questions, random);\<close>
\<close>

definition shuffleWithSeed :: "string \<Rightarrow> 'a option list \<Rightarrow> runtime \<Rightarrow> 'a jsarray \<times> runtime" where
  "shuffleWithSeed seed array w =
     (let (random, w1) = createSeededRandomIn seed w
      in shuffleArrayIn array random w1)"

section \<open>Data model\<close>

text \<open>
  The tables behind the Sequelize models \<^verbatim>\<open>Quiz\<close>, \<^verbatim>\<open>QuizQuestion\<close>, \<^verbatim>\<open>QuizAnswer\<close>,
  \<^verbatim>\<open>QuizAttempt\<close> and \<^verbatim>\<open>UserQuizAnswer\<close>. A nullable column is an \<open>option\<close>; the
  \<^verbatim>\<open>INTEGER\<close> columns are \<^typ>\<open>int\<close> (nothing in the controllers restricts their
  sign). The time stamps \<^verbatim>\<open>createdAt\<close> and \<^verbatim>\<open>updatedAt\<close> play no part in the
  controllers and are left out. Fields carry a prefix naming their table.
\<close>

datatype question_type = multiple_choice | single_choice | true_false | fill_blank

record quiz_row =
  qz_id :: int
  qz_lessonId :: "int option"
  qz_category :: "string option"
  qz_difficulty :: "string option"
  qz_title :: string
  qz_description :: "string option"
  qz_timeLimit :: "int option"
  qz_passingScore :: "int option"

record question_row =
  qq_id :: int
  qq_quizId :: int
  qq_questionText :: string
  qq_questionType :: question_type
  qq_points :: int
  qq_explanation :: "string option"
  qq_position :: int

record answer_row =
  qa_id :: int
  qa_questionId :: int
  qa_answerText :: string
  qa_isCorrect :: bool
  qa_explanation :: "string option"

record attempt_row =
  at_id :: int
  at_quizId :: int
  at_userId :: "int option"
  at_startedAt :: int
  at_completedAt :: int
  at_timeSpentSeconds :: int
  at_score :: "int option"
  at_maxScore :: "int option"
  at_percentageScore :: "rat option"
  at_passed :: "bool option"

record user_answer_row =
  ua_attemptId :: int
  ua_questionId :: "int option"
  ua_answerId :: "int option"
  ua_textAnswer :: "string option"
  ua_isCorrect :: bool
  ua_pointsEarned :: int

record db =
  quizzes :: "quiz_row list"
  quizQuestions :: "question_row list"
  quizAnswers :: "answer_row list"
  quizAttempts :: "attempt_row list"
  userQuizAnswers :: "user_answer_row list"

text \<open>
  A quiz loaded with \<^verbatim>\<open>include: [questions [answers]]\<close> and all attributes, as the
  submission path loads it.
\<close>

record question_incl =
  question :: question_row
  answers :: "answer_row list"

record quiz_incl =
  quiz :: quiz_row
  questions :: "question_incl list"

text \<open>The error kinds of the responses: 404, 400 for a rejected request body, 400 for a
  deletion blocked by attempts (the specification's Conflict), 500 for a caught exception.\<close>

datatype error = NotFound | ValidationError | Conflict | ServerError

section \<open>Scoring engine\<close>

text \<open>
  One element of the \<^verbatim>\<open>answers\<close> array of the request body. The documented schema
  types \<^verbatim>\<open>questionId\<close> and \<^verbatim>\<open>answerId\<close> as integers and \<^verbatim>\<open>textAnswer\<close> as a string;
  \<open>None\<close> is an absent (or \<^verbatim>\<open>null\<close>) property. A field holds the number as the parsed
  body has it.
\<close>

record submission =
  questionId :: "int option"
  answerId :: "int option"
  textAnswer :: "string option"

text \<open>
  \<^verbatim>\<open>parseInt\<close> converts its argument to a string and reads the longest prefix that is a
  decimal integer. A number below \<open>10^21\<close> in magnitude is printed in plain decimal
  notation and read back as itself. From \<open>10^21\<close> on a number is printed in exponential
  notation (\<^verbatim>\<open>1e+21\<close>, \<^verbatim>\<open>1.2345e+22\<close>) and the reading stops after the first digit. The
  digits printed are those of the shortest decimal that denotes the same double;
  17 digits always suffice. On \<^verbatim>\<open>undefined\<close> the result is \<^verbatim>\<open>NaN\<close> (\<open>None\<close>), which is
  \<^verbatim>\<open>===\<close> to no identifier.
\<close>

function decimalLength :: "int \<Rightarrow> nat" where
  "decimalLength n = (if n < 10 then 1 else Suc (decimalLength (n div 10)))"
  by pat_completeness auto
termination
  by (relation "measure nat") auto

text \<open>The decimal of \<open>k\<close> significant digits that denotes the double \<open>x\<close>, if there is one:
  its digits are those of \<open>x\<close> cut after the first \<open>k\<close>, or that number plus one; of two
  candidates the one nearer to \<open>x\<close> is taken, and the even one if they are equally near.\<close>

definition shortDecimal :: "int \<Rightarrow> nat \<Rightarrow> int option" where
  "shortDecimal x k =
     (let m = decimalLength x - k;
          s = x div 10 ^ m;
          below = (toDouble (of_int (s * 10 ^ m)) = of_int x);
          above = (toDouble (of_int ((s + 1) * 10 ^ m)) = of_int x)
      in if below \<and> above then
           (if x - s * 10 ^ m < (s + 1) * 10 ^ m - x then Some s
            else if (s + 1) * 10 ^ m - x < x - s * 10 ^ m then Some (s + 1)
            else if even s then Some s else Some (s + 1))
         else if below then Some s
         else if above then Some (s + 1)
         else None)"

text \<open>The digits of the shortest such decimal, tried with \<open>k\<close>, \<open>k + 1\<close>, ... digits.\<close>

fun shortestDigits :: "nat \<Rightarrow> nat \<Rightarrow> int \<Rightarrow> int" where
  "shortestDigits 0 k x = x"
| "shortestDigits (Suc fuel) k x =
     (case shortDecimal x k of
        Some s \<Rightarrow> s
      | None \<Rightarrow> shortestDigits fuel (Suc k) x)"

definition leadingDigit :: "int \<Rightarrow> int" where
  "leadingDigit x = (let s = shortestDigits 17 1 x in s div 10 ^ (decimalLength s - 1))"

definition parseInt :: "int option \<Rightarrow> int option" where
  "parseInt v =
     (case v of
        None \<Rightarrow> None
      | Some n \<Rightarrow> if \<bar>n\<bar> < 10 ^ 21 then Some n else Some (sgn n * leadingDigit \<bar>n\<bar>))"

text \<open>\<^verbatim>\<open>String.prototype.toLowerCase\<close> and \<^verbatim>\<open>trim\<close> on code units below 256.\<close>

definition lowerChar :: "char \<Rightarrow> char" where
  "lowerChar c =
     (let n = (of_char c :: nat)
      in if (65 \<le> n \<and> n \<le> 90) \<or> (192 \<le> n \<and> n \<le> 214) \<or> (216 \<le> n \<and> n \<le> 222)
         then char_of (n + 32) else c)"

definition toLowerCase :: "string \<Rightarrow> string" where
  "toLowerCase s = map lowerChar s"

definition isWhiteSpace :: "char \<Rightarrow> bool" where
  "isWhiteSpace c = ((of_char c :: nat) \<in> {9, 10, 11, 12, 13, 32, 160})"

definition trim :: "string \<Rightarrow> string" where
  "trim s = rev (dropWhile isWhiteSpace (rev (dropWhile isWhiteSpace s)))"

text \<open>\<^verbatim>\<open>quiz.questions.find(q => q.id === parseInt(questionId))\<close>\<close>

definition findQuestion :: "quiz_incl \<Rightarrow> submission \<Rightarrow> question_incl option" where
  "findQuestion qz answer =
     find (\<lambda>q. Some (qq_id (question q)) = parseInt (questionId answer)) (questions qz)"

text \<open>
  The branch that determines \<^verbatim>\<open>isCorrect\<close>:
  \<^verbatim>\<open>
  if (question.questionType === 'fill_blank') {
    const correctAnswers = question.answers
      .filter(a => a.isCorrect)
      .map(a => a.answerText.toLowerCase().trim());
    if (textAnswer && correctAnswers.includes(textAnswer.toLowerCase().trim())) { isCorrect = true; ... }
  } else {
    const selectedAnswer = question.answers.find(a => a.id === parseInt(answerId));
    if (selectedAnswer && selectedAnswer.isCorrect) { isCorrect = true; ... }
  }
  \<close>
  A string is truthy when it is not empty.
\<close>

definition determineCorrect :: "question_incl \<Rightarrow> submission \<Rightarrow> bool" where
  "determineCorrect q answer =
     (if qq_questionType (question q) = fill_blank then
        (let correctAnswers = map (\<lambda>a. trim (toLowerCase (qa_answerText a)))
                                (filter qa_isCorrect (answers q))
         in case textAnswer answer of
              None \<Rightarrow> False
            | Some t \<Rightarrow> t \<noteq> [] \<and> trim (toLowerCase t) \<in> set correctAnswers)
      else
        (case find (\<lambda>a. Some (qa_id a) = parseInt (answerId answer)) (answers q) of
           None \<Rightarrow> False
         | Some selectedAnswer \<Rightarrow> qa_isCorrect selectedAnswer))"

text \<open>
  \<^verbatim>\<open>UserQuizAnswer.create({...}, { transaction })\<close>. The model declares
  \<^verbatim>\<open>attemptId\<close> and \<^verbatim>\<open>questionId\<close> as non-null references to \<^verbatim>\<open>quiz_attempts\<close> and
  \<^verbatim>\<open>quiz_questions\<close>, and \<^verbatim>\<open>answerId\<close> as a nullable reference to \<^verbatim>\<open>quiz_answers\<close>.
  The database checks these foreign keys when the row is inserted; a reference to a row
  that does not exist makes the insert fail, and \<^verbatim>\<open>create\<close> throws. The handler has one
  \<^verbatim>\<open>catch\<close> for the whole request, which rolls the transaction back and answers 500.
\<close>

definition createUserQuizAnswer :: "db \<Rightarrow> user_answer_row \<Rightarrow> error + user_answer_row" where
  "createUserQuizAnswer d row =
     (if ua_attemptId row \<in> set (map at_id (quizAttempts d))
         \<and> (case ua_questionId row of
               None \<Rightarrow> False
             | Some n \<Rightarrow> n \<in> set (map qq_id (quizQuestions d)))
         \<and> (case ua_answerId row of
               None \<Rightarrow> True
             | Some a \<Rightarrow> a \<in> set (map qa_id (quizAnswers d)))
      then Inr row
      else Inl ServerError)"

text \<open>The variables of the grading loop, with the \<^verbatim>\<open>UserQuizAnswer\<close> rows created so far.\<close>

record grading =
  totalScore :: int
  maxScore :: int
  created :: "user_answer_row list"

text \<open>\<^verbatim>\<open>answerId || null\<close> and \<^verbatim>\<open>textAnswer || null\<close>: 0 and the empty string are falsy.\<close>

definition orNull_int :: "int option \<Rightarrow> int option" where
  "orNull_int v = (if v = Some 0 then None else v)"

definition orNull_string :: "string option \<Rightarrow> string option" where
  "orNull_string v = (if v = Some [] then None else v)"

text \<open>
  One iteration of \<^verbatim>\<open>for (const answer of answers)\<close>, in the database \<open>d\<close> that the
  transaction sees (it holds the attempt created before the loop). An exception leaves
  the loop and the handler: the result is \<open>Inl\<close>.
\<close>

definition processAnswer :: "db \<Rightarrow> quiz_incl \<Rightarrow> int \<Rightarrow> grading \<Rightarrow> submission \<Rightarrow> error + grading" where
  "processAnswer d qz attemptId g answer =
     (case findQuestion qz answer of
        None \<Rightarrow> Inr g
      | Some q \<Rightarrow>
          (let maxScore' = maxScore g + qq_points (question q);
               isCorrect = determineCorrect q answer;
               pointsEarned = (if isCorrect then qq_points (question q) else 0);
               totalScore' = (if isCorrect then totalScore g + pointsEarned else totalScore g)
           in case createUserQuizAnswer d
                     \<lparr>ua_attemptId = attemptId, ua_questionId = questionId answer,
                      ua_answerId = orNull_int (answerId answer),
                      ua_textAnswer = orNull_string (textAnswer answer),
                      ua_isCorrect = isCorrect, ua_pointsEarned = pointsEarned\<rparr> of
                Inl e \<Rightarrow> Inl e
              | Inr row \<Rightarrow>
                  Inr \<lparr>totalScore = totalScore', maxScore = maxScore',
                       created = created g @ [row]\<rparr>))"

text \<open>\<^verbatim>\<open>let totalScore = 0; let maxScore = 0;\<close> and no row created yet.\<close>

definition initialGrading :: grading where
  "initialGrading = \<lparr>totalScore = 0, maxScore = 0, created = []\<rparr>"

fun processAnswers :: "db \<Rightarrow> quiz_incl \<Rightarrow> int \<Rightarrow> grading \<Rightarrow> submission list \<Rightarrow> error + grading" where
  "processAnswers d qz attemptId g [] = Inr g"
| "processAnswers d qz attemptId g (answer # rest) =
     (case processAnswer d qz attemptId g answer of
        Inl e \<Rightarrow> Inl e
      | Inr g' \<Rightarrow> processAnswers d qz attemptId g' rest)"

text \<open>
  \<^verbatim>\<open>const percentageScore = maxScore > 0 ? (totalScore / maxScore) * 100 : 0;\<close>
  \<^verbatim>\<open>const passed = quiz.passingScore ? percentageScore >= quiz.passingScore : true;\<close>
  The quotient is rounded to a double, and so is its product with 100; \<^verbatim>\<open>null\<close> and 0
  are falsy.
\<close>

definition percentageScoreOf :: "int \<Rightarrow> int \<Rightarrow> rat" where
  "percentageScoreOf score mx =
     (if mx > 0 then fmul (fdiv (of_int score) (of_int mx)) 100 else 0)"

definition passedOf :: "int option \<Rightarrow> rat \<Rightarrow> bool" where
  "passedOf passingScore percentageScore =
     (case passingScore of
        None \<Rightarrow> True
      | Some p \<Rightarrow> (if p \<noteq> 0 then percentageScore \<ge> of_int p else True))"

section \<open>Quiz assembly\<close>

text \<open>
  \<^verbatim>\<open>getQuizById\<close> and \<^verbatim>\<open>getMockTestById\<close> load the quiz with the question attributes
  \<^verbatim>\<open>['id', 'questionText', 'questionType', 'points', 'position']\<close> and the answer
  attributes \<^verbatim>\<open>['id', 'answerText']\<close>. The objects they work on have these fields and
  no others. An array of answers is a list whose elements may be \<^verbatim>\<open>undefined\<close>
  (\<^verbatim>\<open>null\<close> in the JSON response).
\<close>

record answer_view =
  av_id :: int
  av_answerText :: string

record question_view =
  qv_id :: int
  qv_questionText :: string
  qv_questionType :: question_type
  qv_points :: int
  qv_position :: int
  qv_answers :: "answer_view option list"

record view_metadata =
  totalAvailableQuestions :: nat
  returnedQuestions :: nat
  randomized :: bool
  answersShuffled :: bool
  seed :: "string option"

record quiz_view =
  v_quiz :: quiz_row
  v_questions :: "question_view list"
  v_metadata :: view_metadata

text \<open>The request: the path parameter \<^verbatim>\<open>id\<close>, the query parameters (\<^verbatim>\<open>randomize\<close> and
  \<^verbatim>\<open>shuffleAnswers\<close> as the outcome of \<^verbatim>\<open>=== 'true'\<close>, \<^verbatim>\<open>questionCount\<close> as the outcome
  of \<^verbatim>\<open>parseInt\<close>), the requester and the caller's address. The path parameter is a
  string: \<open>vr_idText\<close> is its text, which the seed embeds as it is, and \<open>vr_id\<close> the key
  that the query compares with the primary key.\<close>

record view_request =
  vr_id :: int
  vr_idText :: string
  vr_randomize :: bool
  vr_questionCount :: "int option"
  vr_userSeed :: "string option"
  vr_shuffleAnswers :: bool
  vr_userId :: "int option"
  vr_ip :: "string option"

text \<open>The selected attributes of an answer and of a question. The query orders the
  questions by \<^verbatim>\<open>position\<close> and the answers of each by \<^verbatim>\<open>id\<close>; rows with equal keys
  keep their table order here.\<close>

definition answerAttributes :: "answer_row \<Rightarrow> answer_view" where
  "answerAttributes a = \<lparr>av_id = qa_id a, av_answerText = qa_answerText a\<rparr>"

definition questionAttributes :: "db \<Rightarrow> question_row \<Rightarrow> question_view" where
  "questionAttributes d q =
     \<lparr>qv_id = qq_id q, qv_questionText = qq_questionText q,
      qv_questionType = qq_questionType q, qv_points = qq_points q,
      qv_position = qq_position q,
      qv_answers = map (\<lambda>a. Some (answerAttributes a))
                     (sort_key qa_id (filter (\<lambda>a. qa_questionId a = qq_id q) (quizAnswers d)))\<rparr>"

definition loadQuestions :: "db \<Rightarrow> int \<Rightarrow> question_view list" where
  "loadQuestions d quizId =
     map (questionAttributes d)
       (sort_key qq_position (filter (\<lambda>q. qq_quizId q = quizId) (quizQuestions d)))"

text \<open>Decimal notation of a number inside a template literal (the requester's key, an
  integer of the \<^verbatim>\<open>INTEGER\<close> column of the users).\<close>

definition digitChar :: "nat \<Rightarrow> char" where
  "digitChar k = char_of (of_char CHR ''0'' + k)"

fun digitsOf :: "nat \<Rightarrow> string" where
  "digitsOf n = (if 10 \<le> n then digitsOf (n div 10) @ [digitChar (n mod 10)] else [digitChar n])"

definition numberToString :: "int \<Rightarrow> string" where
  "numberToString v = (if 0 \<le> v then digitsOf (nat v) else CHR ''-'' # digitsOf (nat (- v)))"

text \<open>
  \<^verbatim>\<open>const userId = req.userId || req.ip || 'anonymous';\<close>
  \<^verbatim>\<open>const seed = `${userId}-${id}-${userSeed || 'default'}`;\<close>
\<close>

definition requesterOf :: "view_request \<Rightarrow> string" where
  "requesterOf req =
     (case vr_userId req of
        Some u \<Rightarrow> if u \<noteq> 0 then numberToString u
                  else (case vr_ip req of
                          Some a \<Rightarrow> if a \<noteq> [] then a else ''anonymous''
                        | None \<Rightarrow> ''anonymous'')
      | None \<Rightarrow> (case vr_ip req of
                    Some a \<Rightarrow> if a \<noteq> [] then a else ''anonymous''
                  | None \<Rightarrow> ''anonymous''))"

definition seedOf :: "view_request \<Rightarrow> string" where
  "seedOf req =
     requesterOf req @ ''-'' @ vr_idText req @ ''-'' @
       (case vr_userSeed req of
          Some s \<Rightarrow> if s \<noteq> [] then s else ''default''
        | None \<Rightarrow> ''default'')"

text \<open>
  \<^verbatim>\<open>
  questions = questions.map(question => {
    if (question.answers && question.answers.length > 0) {
      const shuffledAnswers = shuffleArray(question.answers, random);
      return { ...question.toJSON(), answers: shuffledAnswers };
    }
    return question;
  });
  \<close>
  The callback runs on the elements in order and the generator goes on from one
  question to the next. On an \<^verbatim>\<open>undefined\<close> element \<^verbatim>\<open>question.answers\<close> throws a
  \<^verbatim>\<open>TypeError\<close>: the result is \<open>None\<close>.
\<close>

fun shuffleEachAnswers :: "question_view option list \<Rightarrow> int \<Rightarrow> question_view option list option" where
  "shuffleEachAnswers [] hash = Some []"
| "shuffleEachAnswers (None # rest) hash = None"
| "shuffleEachAnswers (Some q # rest) hash =
     (if qv_answers q \<noteq> [] then
        (case shuffleArray (qv_answers q) hash of
           (shuffledAnswers, hash') \<Rightarrow>
             map_option (\<lambda>qs. Some (q\<lparr>qv_answers := elems shuffledAnswers\<rparr>) # qs)
               (shuffleEachAnswers rest hash'))
      else map_option (\<lambda>qs. Some q # qs) (shuffleEachAnswers rest hash))"

text \<open>
  \<^verbatim>\<open>
  questions = questions.map((question, index) => ({
    ...question.toJSON ? question.toJSON() : question,
    position: index
  }));
  \<close>
  On an \<^verbatim>\<open>undefined\<close> element \<^verbatim>\<open>question.toJSON\<close> throws a \<^verbatim>\<open>TypeError\<close>.
\<close>

fun updatePositions :: "nat \<Rightarrow> question_view option list \<Rightarrow> question_view list option" where
  "updatePositions index [] = Some []"
| "updatePositions index (None # rest) = None"
| "updatePositions index (Some q # rest) =
     map_option (\<lambda>qs. q\<lparr>qv_position := int index\<rparr> # qs) (updatePositions (Suc index) rest)"

text \<open>The block under \<^verbatim>\<open>if (randomize === 'true' && questions.length > 0)\<close>: shuffle the
  questions, cut the list to \<^verbatim>\<open>questionCount\<close>, shuffle the answers, renumber.\<close>

definition randomizeQuestions :: "view_request \<Rightarrow> question_view list \<Rightarrow> question_view list option" where
  "randomizeQuestions req loaded =
     (let random0 = createSeededRandom (seedOf req);
          (shuffled, random1) = shuffleArray (map Some loaded) random0;
          questions1 = elems shuffled;
          questions2 =
            (case vr_questionCount req of
               Some c \<Rightarrow> if c > 0 then take (min (nat c) (length questions1)) questions1
                         else questions1
             | None \<Rightarrow> questions1);
          questions3 =
            (if vr_shuffleAnswers req then shuffleEachAnswers questions2 random1
             else Some questions2)
      in case questions3 of
           None \<Rightarrow> None
         | Some qs \<Rightarrow> updatePositions 0 qs)"

text \<open>The response built from the loaded quiz; a thrown exception is answered with 500.\<close>

definition assembleView :: "view_request \<Rightarrow> quiz_row \<Rightarrow> question_view list \<Rightarrow> error + quiz_view" where
  "assembleView req z loaded =
     (case (if vr_randomize req \<and> loaded \<noteq> [] then randomizeQuestions req loaded
            else Some loaded) of
        None \<Rightarrow> Inl ServerError
      | Some qs \<Rightarrow>
          Inr \<lparr>v_quiz = z, v_questions = qs,
               v_metadata = \<lparr>totalAvailableQuestions = length loaded,
                              returnedQuestions = length qs,
                              randomized = vr_randomize req,
                              answersShuffled = vr_shuffleAnswers req,
                              seed = (if vr_randomize req then Some (seedOf req) else None)\<rparr>\<rparr>)"

text \<open>\<^verbatim>\<open>getQuizById\<close>: \<^verbatim>\<open>Quiz.findByPk(id, ...)\<close>, 404 when there is no such row.\<close>

definition getQuizById :: "db \<Rightarrow> view_request \<Rightarrow> error + quiz_view" where
  "getQuizById d req =
     (case find (\<lambda>z. qz_id z = vr_id req) (quizzes d) of
        None \<Rightarrow> Inl NotFound
      | Some z \<Rightarrow> assembleView req z (loadQuestions d (qz_id z)))"

text \<open>\<^verbatim>\<open>getMockTestById\<close>: \<^verbatim>\<open>Quiz.findOne({ where: { id, lessonId: null }, ... })\<close>.\<close>

definition getMockTestById :: "db \<Rightarrow> view_request \<Rightarrow> error + quiz_view" where
  "getMockTestById d req =
     (case find (\<lambda>z. qz_id z = vr_id req \<and> qz_lessonId z = None) (quizzes d) of
        None \<Rightarrow> Inl NotFound
      | Some z \<Rightarrow> assembleView req z (loadQuestions d (qz_id z)))"

section \<open>Deletion\<close>

text \<open>
  \<^verbatim>\<open>
  const attemptCount = await QuizAttempt.count({ where: { quizId: id } });
  if (attemptCount > 0) { await transaction.rollback(); return res.status(400)... }
  const questions = await QuizQuestion.findAll({ where: { quizId: id } });
  for (const question of questions) {
    await QuizAnswer.destroy({ where: { questionId: question.id }, transaction });
  }
  await QuizQuestion.destroy({ where: { quizId: id }, transaction });
  await quiz.destroy({ transaction });
  await transaction.commit();
  \<close>
  The writes of the transaction become visible together at the commit; the function
  returns the outcome and the database after the request.
\<close>

definition destroyAnswersOf :: "question_row \<Rightarrow> db \<Rightarrow> db" where
  "destroyAnswersOf q d = d\<lparr>quizAnswers := filter (\<lambda>a. qa_questionId a \<noteq> qq_id q) (quizAnswers d)\<rparr>"

definition destroyTree :: "quiz_row \<Rightarrow> int \<Rightarrow> db \<Rightarrow> (error + unit) \<times> db" where
  "destroyTree z ident d =
     (let attemptCount = length (filter (\<lambda>a. at_quizId a = ident) (quizAttempts d))
      in if attemptCount > 0 then (Inl Conflict, d)
         else
           (let qs = filter (\<lambda>q. qq_quizId q = ident) (quizQuestions d);
                d1 = fold destroyAnswersOf qs d;
                d2 = d1\<lparr>quizQuestions := filter (\<lambda>q. qq_quizId q \<noteq> ident) (quizQuestions d1)\<rparr>;
                d3 = d2\<lparr>quizzes := filter (\<lambda>y. qz_id y \<noteq> qz_id z) (quizzes d2)\<rparr>
            in (Inr (), d3)))"

text \<open>\<^verbatim>\<open>deleteQuiz\<close> finds the quiz with \<^verbatim>\<open>Quiz.findByPk(id)\<close>, \<^verbatim>\<open>deleteMockTest\<close> with
  \<^verbatim>\<open>Quiz.findOne({ where: { id, lessonId: null } })\<close>.\<close>

definition deleteQuiz :: "int \<Rightarrow> db \<Rightarrow> (error + unit) \<times> db" where
  "deleteQuiz ident d =
     (case find (\<lambda>z. qz_id z = ident) (quizzes d) of
        None \<Rightarrow> (Inl NotFound, d)
      | Some z \<Rightarrow> destroyTree z ident d)"

definition deleteMockTest :: "int \<Rightarrow> db \<Rightarrow> (error + unit) \<times> db" where
  "deleteMockTest ident d =
     (case find (\<lambda>z. qz_id z = ident \<and> qz_lessonId z = None) (quizzes d) of
        None \<Rightarrow> (Inl NotFound, d)
      | Some z \<Rightarrow> destroyTree z ident d)"
section \<open>Vocabulary of the claims about the seeded shuffle\<close>

text \<open>The swap index as a function of the content of \<^verbatim>\<open>hash\<close> after the call of the
  generator and of the value of \<^verbatim>\<open>i + 1\<close>.\<close>

definition indexFor :: "int \<Rightarrow> int \<Rightarrow> int" where
  "indexFor hash n = \<lfloor>fmul (fdiv (of_int hash) 233280) (of_int n)\<rfloor>"

text \<open>A state of the running program in which three generators exist already, with an
  arbitrary clock reading and source of randomness; and another one.\<close>

definition sampleRuntime :: runtime where
  "sampleRuntime =
     \<lparr>rt_clock = 1700000000000, rt_entropy = [1 / 2, 1 / 3],
      rt_cells = (\<lambda>a. if a = 0 then 77 else if a < 3 then - 5 else 0), rt_next = 3\<rparr>"

definition otherRuntime :: runtime where
  "otherRuntime = \<lparr>rt_clock = 0, rt_entropy = [], rt_cells = (\<lambda>a. 0), rt_next = 0\<rparr>"

section \<open>Vocabulary of the claims about scoring\<close>



text \<open>The references of a submission exist: the attempt is a row of the database, the
  submitted \<^verbatim>\<open>questionId\<close> is the key of a question row, and the submitted \<^verbatim>\<open>answerId\<close>
  is absent, \<^verbatim>\<open>null\<close>, 0, or the key of an answer row.\<close>

definition referencesExist :: "db \<Rightarrow> int \<Rightarrow> submission \<Rightarrow> bool" where
  "referencesExist d attemptId answer =
     (attemptId \<in> at_id ` set (quizAttempts d)
      \<and> (\<exists>n. questionId answer = Some n \<and> n \<in> qq_id ` set (quizQuestions d))
      \<and> (answerId answer = None \<or> answerId answer = Some 0
          \<or> (\<exists>a. answerId answer = Some a \<and> a \<in> qa_id ` set (quizAnswers d))))"

text \<open>The text of a submission matches a question's accepted texts: lower-cased and
  trimmed, it equals the lower-cased and trimmed text of an answer marked correct.\<close>

definition textMatches :: "question_incl \<Rightarrow> string \<Rightarrow> bool" where
  "textMatches q t =
     (\<exists>a \<in> set (answers q). qa_isCorrect a \<and>
        trim (toLowerCase (qa_answerText a)) = trim (toLowerCase t))"

subsection \<open>Sample data\<close>

text \<open>A quiz with a single-choice question worth 4 points (answer 10 correct) and a
  fill-in-the-blank question worth 2 points accepting \<^verbatim>\<open>"Paris"\<close> and \<^verbatim>\<open>"paris "\<close>.\<close>

definition sampleChoice :: question_incl where
  "sampleChoice =
     \<lparr>question = \<lparr>qq_id = 1, qq_quizId = 7, qq_questionText = ''2 + 2'',
                   qq_questionType = single_choice, qq_points = 4, qq_explanation = None,
                   qq_position = 0\<rparr>,
      answers = [\<lparr>qa_id = 10, qa_questionId = 1, qa_answerText = ''4'', qa_isCorrect = True,
                   qa_explanation = None\<rparr>,
                 \<lparr>qa_id = 11, qa_questionId = 1, qa_answerText = ''5'', qa_isCorrect = False,
                   qa_explanation = None\<rparr>]\<rparr>"

definition sampleBlank :: question_incl where
  "sampleBlank =
     \<lparr>question = \<lparr>qq_id = 2, qq_quizId = 7, qq_questionText = ''Capital of France'',
                   qq_questionType = fill_blank, qq_points = 2, qq_explanation = None,
                   qq_position = 1\<rparr>,
      answers = [\<lparr>qa_id = 20, qa_questionId = 2, qa_answerText = ''Paris'', qa_isCorrect = True,
                   qa_explanation = None\<rparr>,
                 \<lparr>qa_id = 21, qa_questionId = 2, qa_answerText = ''paris '', qa_isCorrect = True,
                   qa_explanation = None\<rparr>]\<rparr>"

definition sampleQuizRow :: quiz_row where
  "sampleQuizRow =
     \<lparr>qz_id = 7, qz_lessonId = Some 3, qz_category = None, qz_difficulty = None,
      qz_title = ''Sample'', qz_description = None, qz_timeLimit = None,
      qz_passingScore = Some 50\<rparr>"

definition sampleQuiz :: quiz_incl where
  "sampleQuiz = \<lparr>quiz = sampleQuizRow, questions = [sampleChoice, sampleBlank]\<rparr>"

text \<open>The database as the grading loop of an attempt on a quiz finds it: the rows of the
  quiz, and the attempt that an anonymous caller's request has just created with key 1.\<close>

definition attemptOn :: "quiz_incl \<Rightarrow> db" where
  "attemptOn qz =
     \<lparr>quizzes = [quiz qz],
      quizQuestions = map question (questions qz),
      quizAnswers = concat (map answers (questions qz)),
      quizAttempts =
        [\<lparr>at_id = 1, at_quizId = qz_id (quiz qz), at_userId = None, at_startedAt = 0,
          at_completedAt = 1000, at_timeSpentSeconds = 1, at_score = None, at_maxScore = None,
          at_percentageScore = None, at_passed = None\<rparr>],
      userQuizAnswers = []\<rparr>"

text \<open>Three submissions: a correct choice, a question that is not in the quiz, and the
  text \<^verbatim>\<open>" PARIS "\<close>.\<close>

definition sampleSubmissions :: "submission list" where
  "sampleSubmissions =
     [\<lparr>questionId = Some 1, answerId = Some 10, textAnswer = None\<rparr>,
      \<lparr>questionId = Some 99, answerId = Some 10, textAnswer = None\<rparr>,
      \<lparr>questionId = Some 2, answerId = None, textAnswer = Some '' PARIS ''\<rparr>]"


text \<open>A quiz the authoring path accepts (\<^verbatim>\<open>points: points || 1\<close> keeps any non-zero
  number): a question worth 10 points and one worth \<open>-5\<close>, with passing score 0.\<close>

definition penaltyQuiz :: quiz_incl where
  "penaltyQuiz =
     \<lparr>quiz = \<lparr>qz_id = 8, qz_lessonId = Some 3, qz_category = None, qz_difficulty = None,
               qz_title = ''Penalty'', qz_description = None, qz_timeLimit = None,
               qz_passingScore = Some 0\<rparr>,
      questions =
        [\<lparr>question = \<lparr>qq_id = 1, qq_quizId = 8, qq_questionText = ''A'',
                       qq_questionType = single_choice, qq_points = 10, qq_explanation = None,
                       qq_position = 0\<rparr>,
          answers = [\<lparr>qa_id = 10, qa_questionId = 1, qa_answerText = ''yes'',
                       qa_isCorrect = True, qa_explanation = None\<rparr>,
                     \<lparr>qa_id = 11, qa_questionId = 1, qa_answerText = ''no'',
                       qa_isCorrect = False, qa_explanation = None\<rparr>]\<rparr>,
         \<lparr>question = \<lparr>qq_id = 2, qq_quizId = 8, qq_questionText = ''B'',
                       qq_questionType = single_choice, qq_points = - 5, qq_explanation = None,
                       qq_position = 1\<rparr>,
          answers = [\<lparr>qa_id = 20, qa_questionId = 2, qa_answerText = ''yes'',
                       qa_isCorrect = True, qa_explanation = None\<rparr>]\<rparr>]\<rparr>"

definition penaltySubmissions :: "submission list" where
  "penaltySubmissions =
     [\<lparr>questionId = Some 1, answerId = Some 11, textAnswer = None\<rparr>,
      \<lparr>questionId = Some 2, answerId = Some 20, textAnswer = None\<rparr>]"

text \<open>A quiz with passing score 58 and two questions worth 29 and 21 points; the first
  answered correctly and the second wrongly: 29 points out of 50.\<close>

definition thresholdQuiz :: quiz_incl where
  "thresholdQuiz =
     \<lparr>quiz = \<lparr>qz_id = 12, qz_lessonId = None, qz_category = None, qz_difficulty = None,
               qz_title = ''Threshold'', qz_description = None, qz_timeLimit = None,
               qz_passingScore = Some 58\<rparr>,
      questions =
        [\<lparr>question = \<lparr>qq_id = 1, qq_quizId = 12, qq_questionText = ''A'',
                       qq_questionType = single_choice, qq_points = 29, qq_explanation = None,
                       qq_position = 0\<rparr>,
          answers = [\<lparr>qa_id = 10, qa_questionId = 1, qa_answerText = ''yes'',
                       qa_isCorrect = True, qa_explanation = None\<rparr>,
                     \<lparr>qa_id = 11, qa_questionId = 1, qa_answerText = ''no'',
                       qa_isCorrect = False, qa_explanation = None\<rparr>]\<rparr>,
         \<lparr>question = \<lparr>qq_id = 2, qq_quizId = 12, qq_questionText = ''B'',
                       qq_questionType = single_choice, qq_points = 21, qq_explanation = None,
                       qq_position = 1\<rparr>,
          answers = [\<lparr>qa_id = 20, qa_questionId = 2, qa_answerText = ''yes'',
                       qa_isCorrect = True, qa_explanation = None\<rparr>,
                     \<lparr>qa_id = 21, qa_questionId = 2, qa_answerText = ''no'',
                       qa_isCorrect = False, qa_explanation = None\<rparr>]\<rparr>]\<rparr>"

definition thresholdSubmissions :: "submission list" where
  "thresholdSubmissions =
     [\<lparr>questionId = Some 1, answerId = Some 10, textAnswer = None\<rparr>,
      \<lparr>questionId = Some 2, answerId = Some 21, textAnswer = None\<rparr>]"

text \<open>A fill-in-the-blank question whose accepted text is a single space (the authoring
  path rejects only an empty \<^verbatim>\<open>answerText\<close>), and a submission with the empty text.\<close>

definition spaceBlank :: question_incl where
  "spaceBlank =
     \<lparr>question = \<lparr>qq_id = 5, qq_quizId = 9, qq_questionText = ''Separator'',
                   qq_questionType = fill_blank, qq_points = 1, qq_explanation = None,
                   qq_position = 0\<rparr>,
      answers = [\<lparr>qa_id = 50, qa_questionId = 5, qa_answerText = '' '', qa_isCorrect = True,
                   qa_explanation = None\<rparr>]\<rparr>"

definition emptyTextSubmission :: submission where
  "emptyTextSubmission = \<lparr>questionId = Some 5, answerId = None, textAnswer = Some []\<rparr>"

text \<open>The first question answered three times: twice correctly, once wrongly.\<close>

definition duplicateSubmissions :: "submission list" where
  "duplicateSubmissions =
     [\<lparr>questionId = Some 1, answerId = Some 10, textAnswer = None\<rparr>,
      \<lparr>questionId = Some 1, answerId = Some 10, textAnswer = None\<rparr>,
      \<lparr>questionId = Some 1, answerId = Some 11, textAnswer = None\<rparr>]"

section \<open>Vocabulary of the claims about lookup, deletion and the quiz view\<close>

text \<open>What a deletion request must have done, in the words of the specification: with
  an attempt on the quiz, Conflict and an unchanged database; without one, success and
  neither the quiz, nor a question of it, nor an answer of such a question is left.\<close>

definition guardedCascade :: "int \<Rightarrow> db \<Rightarrow> (error + unit) \<times> db \<Rightarrow> bool" where
  "guardedCascade ident d res =
     (if \<exists>a \<in> set (quizAttempts d). at_quizId a = ident
      then res = (Inl Conflict, d)
      else fst res = Inr ()
         \<and> (\<forall>y \<in> set (quizzes (snd res)). qz_id y \<noteq> ident)
         \<and> (\<forall>q \<in> set (quizQuestions (snd res)). qq_quizId q \<noteq> ident)
         \<and> (\<forall>a \<in> set (quizAnswers (snd res)). \<forall>q \<in> set (quizQuestions d).
               qq_quizId q = ident \<longrightarrow> qa_questionId a \<noteq> qq_id q))"

text \<open>Two databases that differ at most in the explanations of their questions and in
  the correctness flags and explanations of their answers.\<close>

definition hideQuestion :: "question_row \<Rightarrow> question_row" where
  "hideQuestion q = q\<lparr>qq_explanation := None\<rparr>"

definition hideAnswer :: "answer_row \<Rightarrow> answer_row" where
  "hideAnswer a = a\<lparr>qa_isCorrect := False, qa_explanation := None\<rparr>"

definition samePublic :: "db \<Rightarrow> db \<Rightarrow> bool" where
  "samePublic d d' =
     (quizzes d = quizzes d'
      \<and> map hideQuestion (quizQuestions d) = map hideQuestion (quizQuestions d')
      \<and> map hideAnswer (quizAnswers d) = map hideAnswer (quizAnswers d'))"

subsection \<open>Sample databases\<close>

text \<open>The sample quiz (bound to lesson 3) with its two questions, and a mock test with one
  question; no attempts.\<close>

definition mockTestRow :: quiz_row where
  "mockTestRow =
     \<lparr>qz_id = 4, qz_lessonId = None, qz_category = Some ''Physics'',
      qz_difficulty = Some ''Easy'', qz_title = ''Mock'', qz_description = None,
      qz_timeLimit = Some 30, qz_passingScore = None\<rparr>"

definition sampleDb :: db where
  "sampleDb =
     \<lparr>quizzes = [mockTestRow, sampleQuizRow],
      quizQuestions =
        [question sampleChoice, question sampleBlank,
         \<lparr>qq_id = 3, qq_quizId = 4, qq_questionText = ''g'', qq_questionType = true_false,
           qq_points = 4, qq_explanation = Some ''about 9.8'', qq_position = 0\<rparr>],
      quizAnswers =
        answers sampleChoice @ answers sampleBlank @
        [\<lparr>qa_id = 30, qa_questionId = 3, qa_answerText = ''true'', qa_isCorrect = True,
           qa_explanation = None\<rparr>,
         \<lparr>qa_id = 31, qa_questionId = 3, qa_answerText = ''false'', qa_isCorrect = False,
           qa_explanation = Some ''no''\<rparr>],
      quizAttempts = [], userQuizAnswers = []\<rparr>"

text \<open>The same database with every correctness flag inverted and every explanation
  replaced.\<close>

definition flippedDb :: db where
  "flippedDb =
     sampleDb\<lparr>quizQuestions := map (\<lambda>q. q\<lparr>qq_explanation := Some ''changed''\<rparr>) (quizQuestions sampleDb),
              quizAnswers := map (\<lambda>a. a\<lparr>qa_isCorrect := \<not> qa_isCorrect a,
                                          qa_explanation := Some ''changed''\<rparr>) (quizAnswers sampleDb)\<rparr>"

text \<open>The sample database after one attempt on the mock test.\<close>

definition attemptedDb :: db where
  "attemptedDb =
     sampleDb\<lparr>quizAttempts :=
       [\<lparr>at_id = 1, at_quizId = 4, at_userId = None, at_startedAt = 0, at_completedAt = 1000,
         at_timeSpentSeconds = 1, at_score = Some 4, at_maxScore = Some 4,
         at_percentageScore = Some 100, at_passed = Some True\<rparr>]\<rparr>"

text \<open>A request for the plain view of a quiz, and one for a randomized view with shuffled
  answers, from the loopback address; the path carries the key in decimal notation.\<close>

definition plainRequest :: "int \<Rightarrow> view_request" where
  "plainRequest ident =
     \<lparr>vr_id = ident, vr_idText = numberToString ident, vr_randomize = False,
      vr_questionCount = None, vr_userSeed = None, vr_shuffleAnswers = False,
      vr_userId = None, vr_ip = Some ''127.0.0.1''\<rparr>"

definition randomRequest :: "int \<Rightarrow> view_request" where
  "randomRequest ident =
     \<lparr>vr_id = ident, vr_idText = numberToString ident, vr_randomize = True,
      vr_questionCount = Some 1, vr_userSeed = None, vr_shuffleAnswers = True,
      vr_userId = Some 2, vr_ip = Some ''127.0.0.1''\<rparr>"

section \<open>Properties of the numbers\<close>

text \<open>The exponent is the one that brackets the number, and it is the only one.\<close>

lemma bitlen_pos: "0 < n \<Longrightarrow> 1 \<le> bitlen n"
  using bitlen_eq_zero_iff [of n] bitlen_nonneg [of n] by linarith

lemma exponentOf_bounds:
  assumes "0 < x"
  shows "2 powi (exponentOf x) \<le> x \<and> x < 2 powi (exponentOf x + 1)"
proof (cases "1 \<le> x")
  case True
  define n where "n = \<lfloor>x\<rfloor>"
  have n: "0 < n" using True by (simp add: n_def)
  define L where "L = bitlen n"
  have L: "1 \<le> L" using bitlen_pos [OF n] by (simp add: L_def)
  have b: "2 ^ nat (L - 1) \<le> n" "n < 2 ^ nat L"
    using bitlen_bounds [OF n] by (simp_all add: L_def)
  have "(of_int (2 ^ nat (L - 1)) :: rat) \<le> of_int n"
    using b(1) by (simp only: of_int_le_iff)
  then have "(2::rat) ^ nat (L - 1) \<le> of_int n" by simp
  moreover have "of_int n \<le> x" by (simp add: n_def)
  ultimately have "(2::rat) ^ nat (L - 1) \<le> x" by (rule order_trans)
  then have lo: "(2::rat) powi (L - 1) \<le> x"
    using L by (simp add: power_int_nonneg_exp)
  have "n + 1 \<le> 2 ^ nat L" using b(2) by simp
  then have "(of_int (n + 1) :: rat) \<le> of_int (2 ^ nat L)"
    by (simp only: of_int_le_iff)
  then have "of_int (n + 1) \<le> (2::rat) ^ nat L" by simp
  moreover have "x < of_int (n + 1)" using floor_correct [of x] by (simp add: n_def)
  ultimately have "x < (2::rat) ^ nat L" by simp
  then have hi: "x < (2::rat) powi L"
    using L by (simp add: power_int_nonneg_exp)
  have "exponentOf x = L - 1"
    using True by (simp add: exponentOf_def L_def n_def)
  then show ?thesis using lo hi by simp
next
  case False
  define y where "y = 1 / x"
  have y: "1 < y" using False assms by (simp add: y_def)
  define c where "c = \<lceil>y\<rceil>"
  have c: "1 < c" using y by (simp add: c_def less_ceiling_iff)
  define k where "k = bitlen (c - 1)"
  have c1: "0 < c - 1" using c by simp
  have k: "1 \<le> k" using bitlen_pos [OF c1] by (simp add: k_def)
  have b: "2 ^ nat (k - 1) \<le> c - 1" "c - 1 < 2 ^ nat k"
    using bitlen_bounds [OF c1] by (simp_all add: k_def)
  have "c \<le> 2 ^ nat k" using b(2) by simp
  then have "(of_int c :: rat) \<le> of_int (2 ^ nat k)" by (simp only: of_int_le_iff)
  then have "of_int c \<le> (2::rat) ^ nat k" by simp
  moreover have "y \<le> of_int c" by (simp add: c_def)
  ultimately have yk: "y \<le> 2 ^ nat k" by (rule order_trans [rotated])
  have "2 ^ nat (k - 1) < c" using b(1) by simp
  then have yk1: "(2::rat) ^ nat (k - 1) < y"
    using less_ceiling_iff [of "2 ^ nat (k - 1)" y] by (simp add: c_def)
  have xy: "x = 1 / y" using assms by (simp add: y_def)
  have "1 / (2::rat) ^ nat k \<le> 1 / y"
    using yk y by (intro divide_left_mono) simp_all
  moreover have "(2::rat) powi (- k) = 1 / 2 ^ nat k"
    using k by (simp add: power_int_minus_divide power_int_nonneg_exp)
  ultimately have lo: "(2::rat) powi (- k) \<le> x"
    using xy by (simp only:)
  have "1 / y < 1 / (2::rat) ^ nat (k - 1)"
    using yk1 y by (intro divide_strict_left_mono) simp_all
  moreover have "(2::rat) powi (- k + 1) = 1 / 2 ^ nat (k - 1)"
    using k power_int_minus_divide [of "2::rat" "k - 1"] by (simp add: power_int_nonneg_exp)
  ultimately have hi: "x < (2::rat) powi (- k + 1)"
    using xy by (simp only:)
  have "exponentOf x = - k"
    using False by (simp add: exponentOf_def k_def c_def y_def)
  then show ?thesis using lo hi by simp
qed

lemma exponentOf_unique:
  assumes "0 < x" and "2 powi e \<le> x" and "x < 2 powi (e + 1)"
  shows "exponentOf x = e"
proof -
  define e' where "e' = exponentOf x"
  have b: "2 powi e' \<le> x" "x < 2 powi (e' + 1)"
    using exponentOf_bounds [OF assms(1)] by (simp_all add: e'_def)
  have "\<not> e < e'"
  proof
    assume "e < e'"
    then have "(2::rat) powi (e + 1) \<le> 2 powi e'"
      by (intro power_int_increasing) simp_all
    then show False using b(1) assms(3) by simp
  qed
  moreover have "\<not> e' < e"
  proof
    assume "e' < e"
    then have "(2::rat) powi (e' + 1) \<le> 2 powi e"
      by (intro power_int_increasing) simp_all
    then show False using b(2) assms(2) by simp
  qed
  ultimately show ?thesis by (simp add: e'_def)
qed

lemma roundEven_near:
  assumes "\<bar>q - of_int n\<bar> < 1 / 2"
  shows "roundEven q = n"
proof (cases "of_int n \<le> q")
  case True
  then have "\<lfloor>q\<rfloor> = n" using assms by (intro floor_unique) simp_all
  then show ?thesis using assms True by (simp add: roundEven_def)
next
  case False
  then have "\<lfloor>q\<rfloor> = n - 1" using assms by (intro floor_unique) simp_all
  then show ?thesis using assms False by (simp add: roundEven_def Let_def)
qed

lemma roundEven_half: "roundEven (of_int n + 1 / 2) = (if even n then n else n + 1)"
proof -
  have "\<lfloor>(of_int n + 1 / 2 :: rat)\<rfloor> = n"
    by (rule floor_unique) simp_all
  then show ?thesis by (simp add: roundEven_def)
qed

lemma roundEven_le:
  assumes "q \<le> of_int m"
  shows "roundEven q \<le> m"
proof -
  define n where "n = \<lfloor>q\<rfloor>"
  have nm: "n \<le> m" using assms by (simp add: n_def floor_le_iff) 
  show ?thesis
  proof (cases "q = of_int n")
    case True
    then show ?thesis using nm by (simp add: roundEven_def n_def)
  next
    case False
    then have "of_int n < q" using of_int_floor_le [of q] unfolding n_def by linarith
    then have "of_int n < (of_int m :: rat)" using assms by simp
    then have "n + 1 \<le> m" by simp
    moreover have "roundEven q \<le> n + 1" by (simp add: roundEven_def Let_def n_def)
    ultimately show ?thesis by simp
  qed
qed

lemma roundEven_ge:
  assumes "of_int m \<le> q"
  shows "m \<le> roundEven q"
proof -
  have "m \<le> \<lfloor>q\<rfloor>" using assms by (simp add: le_floor_iff)
  moreover have "\<lfloor>q\<rfloor> \<le> roundEven q" by (simp add: roundEven_def Let_def)
  ultimately show ?thesis by simp
qed

text \<open>
  The value of a rounding is settled by the exponent and the rounded significand; the
  significand is the integer nearest to the scaled number when one is nearer than all
  others.
\<close>

lemma toDouble_rounded:
  assumes "0 < x" and "2 powi e \<le> x" and "x < 2 powi (e + 1)"
    and "roundEven (x / 2 powi (e - 52)) = n"
  shows "toDouble x = of_int n * 2 powi (e - 52)"
    and "toDouble (- x) = - (of_int n * 2 powi (e - 52))"
  using exponentOf_unique [OF assms(1,2,3)] assms(1,4)
  by (simp_all add: toDouble_def roundPos_def Let_def)

lemma toDouble_certificate:
  assumes "0 < x" and "2 powi e \<le> x" and "x < 2 powi (e + 1)"
    and "\<bar>x / 2 powi (e - 52) - of_int n\<bar> < 1 / 2"
  shows "toDouble x = of_int n * 2 powi (e - 52)"
    and "toDouble (- x) = - (of_int n * 2 powi (e - 52))"
  using toDouble_rounded [OF assms(1,2,3) roundEven_near [OF assms(4)]] by simp_all

text \<open>A bound that lies on the grid of the binade is kept by the rounding.\<close>

lemma roundPos_le:
  assumes "0 < x" and "x \<le> of_int m * 2 powi k" and "exponentOf x - 52 \<le> k"
  shows "roundPos x \<le> of_int m * 2 powi k"
proof -
  define u :: rat where "u = 2 powi (exponentOf x - 52)"
  have u: "0 < u" by (simp add: u_def)
  define d where "d = k - (exponentOf x - 52)"
  have d: "0 \<le> d" using assms(3) by (simp add: d_def)
  have "(2::rat) powi k = 2 powi d * u"
    by (simp add: u_def d_def flip: power_int_add)
  then have grid: "of_int m * (2::rat) powi k = of_int (m * 2 ^ nat d) * u"
    using d by (simp add: power_int_nonneg_exp)
  have "x / u \<le> of_int (m * 2 ^ nat d)"
    using assms(2) u unfolding grid by (simp add: pos_divide_le_eq)
  then have "roundEven (x / u) \<le> m * 2 ^ nat d" by (rule roundEven_le)
  then have "(of_int (roundEven (x / u)) :: rat) \<le> of_int (m * 2 ^ nat d)"
    by (simp only: of_int_le_iff)
  then have "of_int (roundEven (x / u)) * u \<le> of_int (m * 2 ^ nat d) * u"
    using u by (simp only: mult_le_cancel_right_pos)
  moreover have "roundPos x = of_int (roundEven (x / u)) * u"
    by (simp add: roundPos_def u_def Let_def)
  ultimately show ?thesis by (simp only: grid)
qed

lemma roundPos_ge:
  assumes "0 < x" and "of_int m * 2 powi k \<le> x" and "exponentOf x - 52 \<le> k"
  shows "of_int m * 2 powi k \<le> roundPos x"
proof -
  define u :: rat where "u = 2 powi (exponentOf x - 52)"
  have u: "0 < u" by (simp add: u_def)
  define d where "d = k - (exponentOf x - 52)"
  have d: "0 \<le> d" using assms(3) by (simp add: d_def)
  have "(2::rat) powi k = 2 powi d * u"
    by (simp add: u_def d_def flip: power_int_add)
  then have grid: "of_int m * (2::rat) powi k = of_int (m * 2 ^ nat d) * u"
    using d by (simp add: power_int_nonneg_exp)
  have "of_int (m * 2 ^ nat d) \<le> x / u"
    using assms(2) u unfolding grid by (simp add: pos_le_divide_eq)
  then have "m * 2 ^ nat d \<le> roundEven (x / u)" by (rule roundEven_ge)
  then have "(of_int (m * 2 ^ nat d) :: rat) \<le> of_int (roundEven (x / u))"
    by (simp only: of_int_le_iff)
  then have "of_int (m * 2 ^ nat d) * u \<le> of_int (roundEven (x / u)) * u"
    using u by (simp only: mult_le_cancel_right_pos)
  moreover have "roundPos x = of_int (roundEven (x / u)) * u"
    by (simp add: roundPos_def u_def Let_def)
  ultimately show ?thesis by (simp only: grid)
qed

lemma exponentOf_less:
  assumes "0 < x" and "x < 2 powi k"
  shows "exponentOf x < k"
proof (rule ccontr)
  assume "\<not> exponentOf x < k"
  then have "(2::rat) powi k \<le> 2 powi (exponentOf x)"
    by (intro power_int_increasing) simp_all
  then show False using exponentOf_bounds [OF assms(1)] assms(2) by simp
qed

lemma roundPos_pos:
  assumes "0 < x"
  shows "0 < roundPos x"
proof -
  have "2 powi (exponentOf x) \<le> x" using exponentOf_bounds [OF assms] by simp
  then have "of_int 1 * 2 powi (exponentOf x) \<le> x" by simp
  then have "of_int 1 * 2 powi (exponentOf x) \<le> roundPos x"
    by (intro roundPos_ge [OF assms]) simp_all
  then have "2 powi (exponentOf x) \<le> roundPos x" by simp
  moreover have "(0::rat) < 2 powi (exponentOf x)" by simp
  ultimately show ?thesis by (rule less_le_trans [rotated])
qed

lemma toDouble_sign:
  "0 \<le> x \<Longrightarrow> 0 \<le> toDouble x" "x < 0 \<Longrightarrow> toDouble x < 0" "0 < x \<Longrightarrow> 0 < toDouble x"
  using roundPos_pos [of x] roundPos_pos [of "- x"]
  by (auto simp: toDouble_def less_imp_le)

lemma toDouble_le:
  assumes "0 \<le> x" and "x \<le> of_int m * 2 powi k" and "x < 2 powi (k + 53)"
  shows "toDouble x \<le> of_int m * 2 powi k"
proof (cases "x = 0")
  case True
  then show ?thesis using assms by (simp add: toDouble_def)
next
  case False
  then have x: "0 < x" using assms(1) by simp
  have "exponentOf x < k + 53" by (rule exponentOf_less [OF x assms(3)])
  then have "roundPos x \<le> of_int m * 2 powi k"
    by (intro roundPos_le [OF x assms(2)]) simp
  then show ?thesis using x by (simp add: toDouble_def)
qed

lemma toDouble_ge:
  assumes "0 < of_int m * (2::rat) powi k" and "of_int m * 2 powi k \<le> x" and "x < 2 powi (k + 53)"
  shows "of_int m * 2 powi k \<le> toDouble x"
proof -
  have x: "0 < x" using assms(1,2) by simp
  have "exponentOf x < k + 53" by (rule exponentOf_less [OF x assms(3)])
  then have "of_int m * 2 powi k \<le> roundPos x"
    by (intro roundPos_ge [OF x assms(2)]) simp
  then show ?thesis using x by (simp add: toDouble_def)
qed

lemma toDouble_minus: "toDouble (- x) = - toDouble x"
  by (simp add: toDouble_def)

section \<open>Properties of the seeded shuffle\<close>

text \<open>One turn of the loop, with the swap index as a function of the new content of
  \<^verbatim>\<open>hash\<close>.\<close>

lemma shuffleLoop_step:
  "shuffleLoop (Suc k) shuffled hash =
     (let hash' = js_rem (hash * 9301 + 49297) 233280;
          j = indexFor hash' (int k + 2)
      in shuffleLoop k (swapElements shuffled (Suc k) j) hash')"
proof -
  have "(of_nat (Suc k + 1) :: rat) = of_int (int k + 2)" by simp
  then have "swapIndex r (Suc k) = \<lfloor>fmul r (of_int (int k + 2))\<rfloor>" for r
    by (simp only: swapIndex_def)
  then show ?thesis
    by (simp add: random_js_def Let_def indexFor_def)
qed

text \<open>
  When the content of \<^verbatim>\<open>hash\<close> is not negative, the generator emits values in
  \<open>[0,1)\<close>, every swap index lies between 0 and \<open>i\<close>, and the pass permutes the
  elements of an array (an array has fewer than \<open>2^32\<close> elements). The content of
  \<^verbatim>\<open>hash\<close> is the seed's signed 32-bit hash at first, and stays non-negative once
  it is.
\<close>

lemma js_rem_nonneg:
  assumes "0 \<le> a" and "0 < b"
  shows "0 \<le> js_rem a b \<and> js_rem a b < b"
proof (cases "a = 0")
  case True
  then show ?thesis using assms by (simp add: js_rem_def)
next
  case False
  then have "sgn a = 1" using assms(1) by simp
  then show ?thesis using assms by (simp add: js_rem_def)
qed

text \<open>The quotient of a non-negative content of \<^verbatim>\<open>hash\<close> is at most
  \<open>1 - 2^-18\<close>, a double, and so is its rounding.\<close>

lemma fdiv_hash_bounds:
  assumes "0 \<le> h" and "h < 233280"
  shows "0 \<le> fdiv (of_int h) 233280 \<and> fdiv (of_int h) 233280 \<le> of_int 262143 * 2 powi (- 18)"
proof -
  define x :: rat where "x = of_int h / 233280"
  have x0: "0 \<le> x" using assms(1) by (simp add: x_def)
  have "(of_int h :: rat) \<le> of_int 233279" using assms(2) by simp
  then have "x \<le> 233279 / 233280" by (simp add: x_def)
  also have "\<dots> \<le> of_int 262143 * 2 powi (- 18)" by simp
  finally have x1: "x \<le> of_int 262143 * 2 powi (- 18)" .
  have "of_int 262143 * 2 powi (- 18) < (2::rat) powi (- 18 + 53)" by simp
  then have x2: "x < 2 powi (- 18 + 53)" using x1 by (rule le_less_trans [rotated])
  show ?thesis
    using toDouble_sign(1) [OF x0] toDouble_le [OF x0 x1 x2] by (simp add: fdiv_def x_def)
qed

lemma random_js_nonneg:
  assumes "0 \<le> hash"
  shows "0 \<le> snd (random_js hash) \<and> snd (random_js hash) < 233280
       \<and> 0 \<le> fst (random_js hash) \<and> fst (random_js hash) < 1"
proof -
  have "0 \<le> hash * 9301 + 49297" using assms by simp
  then have b: "0 \<le> js_rem (hash * 9301 + 49297) 233280 \<and> js_rem (hash * 9301 + 49297) 233280 < 233280"
    by (intro js_rem_nonneg) simp_all
  have "of_int 262143 * 2 powi (- 18) < (1::rat)" by simp
  then show ?thesis
    using b fdiv_hash_bounds [of "js_rem (hash * 9301 + 49297) 233280"]
    by (simp add: random_js_def Let_def)
qed

lemma swap_index_in_range:
  assumes "0 \<le> h" and "h < 233280" and "0 < n" and "n < 2 ^ 32"
  shows "0 \<le> indexFor h n \<and> indexFor h n < n"
proof -
  define r where "r = fdiv (of_int h) 233280"
  have r: "0 \<le> r" "r \<le> of_int 262143 * 2 powi (- 18)"
    using fdiv_hash_bounds [OF assms(1,2)] by (simp_all add: r_def)
  define v where "v = r * of_int n"
  have n: "(0::rat) < of_int n" using assms(3) by simp
  have v0: "0 \<le> v" using r(1) n by (simp add: v_def)
  have "v \<le> of_int 262143 * 2 powi (- 18) * of_int n"
    unfolding v_def using r(2) n by (intro mult_right_mono) simp_all
  then have v1: "v \<le> of_int (262143 * n) * 2 powi (- 18)" by (simp add: mult_ac)
  have "of_int (262143 * n) * 2 powi (- 18) < (of_int n :: rat)" using n by simp
  moreover have "(of_int n :: rat) < of_int (2 ^ 32)" using assms(4) by (simp only: of_int_less_iff)
  ultimately have lt: "of_int (262143 * n) * 2 powi (- 18) < (2::rat) ^ 32" by simp
  have "(2::rat) ^ 32 < 2 powi (- 18 + 53)" by simp
  then have v2: "v < 2 powi (- 18 + 53)" using v1 lt by linarith
  have d0: "0 \<le> toDouble v" by (rule toDouble_sign(1) [OF v0])
  have "toDouble v \<le> of_int (262143 * n) * 2 powi (- 18)" by (rule toDouble_le [OF v0 v1 v2])
  then have d1: "toDouble v < of_int n"
    using \<open>of_int (262143 * n) * 2 powi (- 18) < (of_int n :: rat)\<close> by simp
  have "indexFor h n = \<lfloor>toDouble v\<rfloor>" by (simp add: indexFor_def fmul_def v_def r_def)
  then show ?thesis using d0 d1 by (simp add: floor_less_iff)
qed

lemma swap_in_range:
  assumes "i < length (elems a)" and "0 \<le> j" and "nat j < length (elems a)"
  shows "swapElements a i j = a\<lparr>elems := (elems a)[i := elems a ! nat j, nat j := elems a ! i]\<rparr>"
  using assms by (simp add: swapElements_def arr_get_def arr_set_def)

lemma shuffleLoop_permutes:
  assumes "0 \<le> hash" and "k < length (elems a)" and "length (elems a) < 2 ^ 32"
  shows "mset (elems (fst (shuffleLoop k a hash))) = mset (elems a)
       \<and> props (fst (shuffleLoop k a hash)) = props a
       \<and> 0 \<le> snd (shuffleLoop k a hash)"
  using assms
proof (induction k arbitrary: a hash)
  case 0
  then show ?case by simp
next
  case (Suc k)
  define h' where "h' = js_rem (hash * 9301 + 49297) 233280"
  define j where "j = indexFor h' (int k + 2)"
  define a' where "a' = a\<lparr>elems := (elems a)[Suc k := elems a ! nat j, nat j := elems a ! Suc k]\<rparr>"
  have h': "0 \<le> h'" "h' < 233280"
    using random_js_nonneg [OF Suc.prems(1)] by (simp_all add: h'_def random_js_def Let_def)
  have "int k + 2 \<le> int (length (elems a))" using Suc.prems(2) by simp
  also have "\<dots> < 2 ^ 32" using Suc.prems(3) by (simp flip: of_nat_less_iff)
  finally have small: "int k + 2 < 2 ^ 32" .
  have jb: "0 \<le> j \<and> j < int k + 2"
    using swap_index_in_range [OF h' _ small] by (simp add: j_def)
  then have "nat j < k + 2" by linarith
  then have j: "0 \<le> j" "nat j < length (elems a)"
    using jb Suc.prems(2) by simp_all
  have step: "shuffleLoop (Suc k) a hash = shuffleLoop k a' h'"
    using swap_in_range [OF Suc.prems(2) j]
    by (simp add: shuffleLoop_step Let_def h'_def [symmetric] j_def [symmetric] a'_def
        del: shuffleLoop.simps(2))
  have len: "k < length (elems a')" "length (elems a') < 2 ^ 32"
    using Suc.prems(2,3) by (simp_all add: a'_def)
  have "mset (elems a') = mset (elems a)"
    using Suc.prems(2) j(2) by (simp add: a'_def mset_swap)
  moreover have "props a' = props a" by (simp add: a'_def)
  ultimately show ?case
    using Suc.IH [OF h'(1) len] step by simp
qed

lemma shuffleArray_permutes:
  assumes "0 \<le> hash" and "length xs < 2 ^ 32"
  shows "mset (elems (fst (shuffleArray xs hash))) = mset xs
       \<and> length (elems (fst (shuffleArray xs hash))) = length xs
       \<and> props (fst (shuffleArray xs hash)) = []"
proof (cases xs)
  case Nil
  then show ?thesis by (simp add: shuffleArray_def)
next
  case (Cons x rest)
  then have "length xs - 1 < length (elems \<lparr>elems = xs, props = []\<rparr>)" by simp
  moreover have "length (elems \<lparr>elems = xs, props = []\<rparr>) < 2 ^ 32" using assms(2) by simp
  ultimately have "mset (elems (fst (shuffleLoop (length xs - 1) \<lparr>elems = xs, props = []\<rparr> hash)))
        = mset (elems \<lparr>elems = xs, props = []\<rparr>)
      \<and> props (fst (shuffleLoop (length xs - 1) \<lparr>elems = xs, props = []\<rparr> hash))
        = props \<lparr>elems = xs, props = []\<rparr>
      \<and> 0 \<le> snd (shuffleLoop (length xs - 1) \<lparr>elems = xs, props = []\<rparr> hash)"
    by (rule shuffleLoop_permutes [OF assms(1)])
  then have m: "mset (elems (fst (shuffleArray xs hash))) = mset xs"
    and p: "props (fst (shuffleArray xs hash)) = []"
    by (simp_all add: shuffleArray_def)
  from m have "length (elems (fst (shuffleArray xs hash))) = length xs"
    by (rule mset_eq_length)
  then show ?thesis using m p by simp
qed

lemma advance_nonneg: "0 \<le> hash \<Longrightarrow> 0 \<le> advance n hash"
  by (induction n arbitrary: hash) (simp_all add: random_js_nonneg)

lemma emitted_in_unit_interval:
  assumes "0 \<le> createSeededRandom s"
  shows "0 \<le> emitted s n \<and> emitted s n < 1"
  using random_js_nonneg [OF advance_nonneg [OF assms, of n]] by (simp add: emitted_def)

text \<open>The hashes of two seeds, and the swap indices of the passes that start from them.
  Each index is computed as the source computes it: the quotient is rounded, the product
  is rounded, and the floor is taken.\<close>

lemma seed_hash_loopback: "createSeededRandom ''127.0.0.1-1-default'' = - 1732536235"
  by (simp add: createSeededRandom_def shiftLeft5_def toInt32_def)

lemma seed_hash_user2: "createSeededRandom ''2-1-default'' = 89507018"
  by (simp add: createSeededRandom_def shiftLeft5_def toInt32_def)

lemma index_loopback_first: "indexFor (- 54198) 3 = - 1"
proof -
  have r: "fdiv (- 54198) 233280 = - (of_int 8370579307415163 * 2 powi (- 55))"
    unfolding fdiv_def
    using toDouble_certificate(2) [of "54198 / 233280" "- 3" 8370579307415163] by simp
  have v: "fmul (- (of_int 8370579307415163 * 2 powi (- 55))) 3 = - (of_int 6277934480561372 * 2 powi (- 53))"
    unfolding fmul_def
    using toDouble_certificate(2) [of "of_int 8370579307415163 * 2 powi (- 55) * 3" "- 1" 6277934480561372] by simp
  have "indexFor (- 54198) 3 = \<lfloor>fmul (fdiv (- 54198) 233280) 3\<rfloor>"
    by (simp add: indexFor_def)
  also have "\<dots> = \<lfloor>- (of_int 6277934480561372 * 2 powi (- 53)) :: rat\<rfloor>"
    by (simp only: r v)
  also have "\<dots> = - 1"
    by (rule floor_unique) simp_all
  finally show ?thesis .
qed

lemma index_loopback_second: "indexFor (- 161501) 2 = - 2"
proof -
  have r: "fdiv (- 161501) 233280 = - (of_int 6235732539608732 * 2 powi (- 53))"
    unfolding fdiv_def
    using toDouble_certificate(2) [of "161501 / 233280" "- 1" 6235732539608732] by simp
  have v: "fmul (- (of_int 6235732539608732 * 2 powi (- 53))) 2 = - (of_int 6235732539608732 * 2 powi (- 52))"
    unfolding fmul_def
    using toDouble_certificate(2) [of "of_int 6235732539608732 * 2 powi (- 53) * 2" "0" 6235732539608732] by simp
  have "indexFor (- 161501) 2 = \<lfloor>fmul (fdiv (- 161501) 233280) 2\<rfloor>"
    by (simp add: indexFor_def)
  also have "\<dots> = \<lfloor>- (of_int 6235732539608732 * 2 powi (- 52)) :: rat\<rfloor>"
    by (simp only: r v)
  also have "\<dots> = - 2"
    by (rule floor_unique) simp_all
  finally show ?thesis .
qed

lemma index_user2_first: "indexFor 120675 3 = 1"
proof -
  have r: "fdiv 120675 233280 = of_int 4659395447813225 * 2 powi (- 53)"
    unfolding fdiv_def
    using toDouble_certificate(1) [of "120675 / 233280" "- 1" 4659395447813225] by simp
  have "of_int 4659395447813225 * 2 powi (- 53) * 3 / 2 powi (0 - 52) = (of_int 6989093171719837 + 1 / 2 :: rat)"
    by simp
  then have "roundEven (of_int 4659395447813225 * 2 powi (- 53) * 3 / 2 powi (0 - 52)) = 6989093171719838"
    by (simp only: roundEven_half) simp
  then have v: "fmul (of_int 4659395447813225 * 2 powi (- 53)) 3 = of_int 6989093171719838 * 2 powi (- 52)"
    unfolding fmul_def
    using toDouble_rounded(1) [of "of_int 4659395447813225 * 2 powi (- 53) * 3" "0" 6989093171719838] by simp
  have "indexFor 120675 3 = \<lfloor>fmul (fdiv 120675 233280) 3\<rfloor>"
    by (simp add: indexFor_def)
  also have "\<dots> = \<lfloor>of_int 6989093171719838 * 2 powi (- 52) :: rat\<rfloor>"
    by (simp only: r v)
  also have "\<dots> = 1"
    by (rule floor_unique) simp_all
  finally show ?thesis .
qed

lemma index_user2_second: "indexFor 137392 2 = 1"
proof -
  have r: "fdiv 137392 233280 = of_int 5304857338851913 * 2 powi (- 53)"
    unfolding fdiv_def
    using toDouble_certificate(1) [of "137392 / 233280" "- 1" 5304857338851913] by simp
  have v: "fmul (of_int 5304857338851913 * 2 powi (- 53)) 2 = of_int 5304857338851913 * 2 powi (- 52)"
    unfolding fmul_def
    using toDouble_certificate(1) [of "of_int 5304857338851913 * 2 powi (- 53) * 2" "0" 5304857338851913] by simp
  have "indexFor 137392 2 = \<lfloor>fmul (fdiv 137392 233280) 2\<rfloor>"
    by (simp add: indexFor_def)
  also have "\<dots> = \<lfloor>of_int 5304857338851913 * 2 powi (- 52) :: rat\<rfloor>"
    by (simp only: r v)
  also have "\<dots> = 1"
    by (rule floor_unique) simp_all
  finally show ?thesis .
qed

lemma index_user2_third: "indexFor 24449 3 = 0"
proof -
  have r: "fdiv 24449 233280 = of_int 7552023819587192 * 2 powi (- 56)"
    unfolding fdiv_def
    using toDouble_certificate(1) [of "24449 / 233280" "- 4" 7552023819587192] by simp
  have v: "fmul (of_int 7552023819587192 * 2 powi (- 56)) 3 = of_int 5664017864690394 * 2 powi (- 54)"
    unfolding fmul_def
    using toDouble_certificate(1) [of "of_int 7552023819587192 * 2 powi (- 56) * 3" "- 2" 5664017864690394] by simp
  have "indexFor 24449 3 = \<lfloor>fmul (fdiv 24449 233280) 3\<rfloor>"
    by (simp add: indexFor_def)
  also have "\<dots> = \<lfloor>of_int 5664017864690394 * 2 powi (- 54) :: rat\<rfloor>"
    by (simp only: r v)
  also have "\<dots> = 0"
    by (rule floor_unique) simp_all
  finally show ?thesis .
qed

lemma index_user2_fourth: "indexFor 1446 2 = 0"
proof -
  have r: "fdiv 1446 233280 = of_int 7146452742033182 * 2 powi (- 60)"
    unfolding fdiv_def
    using toDouble_certificate(1) [of "1446 / 233280" "- 8" 7146452742033182] by simp
  have v: "fmul (of_int 7146452742033182 * 2 powi (- 60)) 2 = of_int 7146452742033182 * 2 powi (- 59)"
    unfolding fmul_def
    using toDouble_certificate(1) [of "of_int 7146452742033182 * 2 powi (- 60) * 2" "- 7" 7146452742033182] by simp
  have "indexFor 1446 2 = \<lfloor>fmul (fdiv 1446 233280) 2\<rfloor>"
    by (simp add: indexFor_def)
  also have "\<dots> = \<lfloor>of_int 7146452742033182 * 2 powi (- 59) :: rat\<rfloor>"
    by (simp only: r v)
  also have "\<dots> = 0"
    by (rule floor_unique) simp_all
  finally show ?thesis .
qed

text \<open>The rounding matters: with 134784 in \<^verbatim>\<open>hash\<close> and \<open>i + 1 = 45\<close> the exact product
  \<open>134784 / 233280 \<times> 45\<close> is 26, the computed one lies just below, and the index is 25.\<close>

lemma index_rounded_down: "indexFor 134784 45 = 25"
proof -
  have r: "fdiv 134784 233280 = of_int 5204159569405906 * 2 powi (- 53)"
    unfolding fdiv_def
    using toDouble_certificate(1) [of "134784 / 233280" "- 1" 5204159569405906] by simp
  have v: "fmul (of_int 5204159569405906 * 2 powi (- 53)) 45 = of_int 7318349394477055 * 2 powi (- 48)"
    unfolding fmul_def
    using toDouble_certificate(1) [of "of_int 5204159569405906 * 2 powi (- 53) * 45" "4" 7318349394477055] by simp
  have "indexFor 134784 45 = \<lfloor>fmul (fdiv 134784 233280) 45\<rfloor>"
    by (simp add: indexFor_def)
  also have "\<dots> = \<lfloor>of_int 7318349394477055 * 2 powi (- 48) :: rat\<rfloor>"
    by (simp only: r v)
  also have "\<dots> = 25"
    by (rule floor_unique) simp_all
  finally show ?thesis .
qed

lemma shuffle_user2:
  "shuffleArray [Some (10::nat), Some 20, Some 30] (createSeededRandom ''2-1-default'')
     = (\<lparr>elems = [Some 10, Some 30, Some 20], props = []\<rparr>, 137392)"
  by (simp add: seed_hash_user2 shuffleArray_def shuffleLoop_step js_rem_def
      index_user2_first index_user2_second
      swapElements_def arr_get_def arr_set_def Let_def del: shuffleLoop.simps(2))

lemma shuffle_user2_again:
  "shuffleArray [Some (10::nat), Some 20, Some 30] 137392
     = (\<lparr>elems = [Some 20, Some 30, Some 10], props = []\<rparr>, 1446)"
  by (simp add: shuffleArray_def shuffleLoop_step js_rem_def
      index_user2_third index_user2_fourth
      swapElements_def arr_get_def arr_set_def Let_def del: shuffleLoop.simps(2))

text \<open>
  The pass on a generator of the running program reads and writes no part of the state
  but the variable of that generator, and treats it as the pass on the value does.
\<close>

lemma shuffleLoopIn_threads:
  "shuffleLoopIn k a random w =
     (fst (shuffleLoop k a (rt_cells w random)),
      w\<lparr>rt_cells := (rt_cells w)(random := snd (shuffleLoop k a (rt_cells w random)))\<rparr>)"
proof (induction k arbitrary: a w)
  case 0
  then show ?case by simp
next
  case (Suc k)
  obtain r hash' where call: "random_js (rt_cells w random) = (r, hash')"
    by (cases "random_js (rt_cells w random)")
  define w' where "w' = w\<lparr>rt_cells := (rt_cells w)(random := hash')\<rparr>"
  define a' where "a' = swapElements a (Suc k) (swapIndex r (Suc k))"
  have "shuffleLoopIn (Suc k) a random w = shuffleLoopIn k a' random w'"
    by (simp add: callRandom_def call w'_def a'_def)
  also have "\<dots> = (fst (shuffleLoop k a' (rt_cells w' random)),
      w'\<lparr>rt_cells := (rt_cells w')(random := snd (shuffleLoop k a' (rt_cells w' random)))\<rparr>)"
    by (rule Suc.IH)
  also have "\<dots> = (fst (shuffleLoop k a' hash'),
      w\<lparr>rt_cells := (rt_cells w)(random := snd (shuffleLoop k a' hash'))\<rparr>)"
    by (simp add: w'_def)
  also have "shuffleLoop k a' hash' = shuffleLoop (Suc k) a (rt_cells w random)"
    by (simp add: call a'_def)
  finally show ?case .
qed

lemma shuffleArrayIn_result:
  "shuffleArrayIn xs random w =
     (fst (shuffleArray xs (rt_cells w random)),
      w\<lparr>rt_cells := (rt_cells w)(random := snd (shuffleArray xs (rt_cells w random)))\<rparr>)"
  by (simp add: shuffleArrayIn_def shuffleArray_def shuffleLoopIn_threads)

lemma shuffleWithSeed_result:
  "shuffleWithSeed s xs w =
     (fst (shuffleArray xs (createSeededRandom s)),
      w\<lparr>rt_cells := (rt_cells w)(rt_next w := snd (shuffleArray xs (createSeededRandom s))),
        rt_next := Suc (rt_next w)\<rparr>)"
  by (simp add: shuffleWithSeed_def createSeededRandomIn_def shuffleArrayIn_result)

text \<open>A generator that is used again goes on from where the first pass left it: the
  second pass over the same input returns another order.\<close>

lemma reused_generator_gives_another_order:
  "(let (random, w1) = createSeededRandomIn ''2-1-default'' w;
        (first, w2) = shuffleArrayIn [Some (10::nat), Some 20, Some 30] random w1;
        (second, w3) = shuffleArrayIn [Some (10::nat), Some 20, Some 30] random w2
    in (first, second))
   = (\<lparr>elems = [Some 10, Some 30, Some 20], props = []\<rparr>,
      \<lparr>elems = [Some 20, Some 30, Some 10], props = []\<rparr>)"
  by (simp add: createSeededRandomIn_def shuffleArrayIn_result shuffle_user2 shuffle_user2_again)

text \<open>
  Claim C3. The seeded shuffle is deterministic. A run creates a generator from the seed
  and shuffles the input with it. In whatever state the program is --- whatever the clock
  shows, whatever \<^verbatim>\<open>Math.random\<close> is going to return, whichever generators exist and
  however far they have been used --- the run returns the same array, the one that the
  pass started on the hash of the seed returns. In particular a second run, made in the
  state that the first one has left behind, returns what the first run returned.
\<close>

theorem seeded_shuffle_deterministic:
  "fst (shuffleWithSeed s xs w) = fst (shuffleWithSeed s xs w')
   \<and> fst (shuffleWithSeed s xs (snd (shuffleWithSeed s xs w))) = fst (shuffleWithSeed s xs w)
   \<and> fst (shuffleWithSeed s xs w) = fst (shuffleArray xs (createSeededRandom s))"
  by (simp add: shuffleWithSeed_result)

theorem seeded_shuffle_deterministic_witness:
  "fst (shuffleWithSeed ''2-1-default'' [Some (10::nat), Some 20, Some 30] sampleRuntime)
     = \<lparr>elems = [Some 10, Some 30, Some 20], props = []\<rparr>
   \<and> fst (shuffleWithSeed ''2-1-default'' [Some (10::nat), Some 20, Some 30] otherRuntime)
     = \<lparr>elems = [Some 10, Some 30, Some 20], props = []\<rparr>
   \<and> fst (shuffleWithSeed ''2-1-default'' [Some (10::nat), Some 20, Some 30]
          (snd (shuffleWithSeed ''2-1-default'' [Some (10::nat), Some 20, Some 30] sampleRuntime)))
     = \<lparr>elems = [Some 10, Some 30, Some 20], props = []\<rparr>"
proof -
  have fresh: "fst (shuffleWithSeed ''2-1-default'' [Some (10::nat), Some 20, Some 30] sampleRuntime)
      = fst (shuffleArray [Some 10, Some 20, Some 30] (createSeededRandom ''2-1-default''))"
    and other: "fst (shuffleWithSeed ''2-1-default'' [Some (10::nat), Some 20, Some 30] sampleRuntime)
      = fst (shuffleWithSeed ''2-1-default'' [Some 10, Some 20, Some 30] otherRuntime)"
    and again: "fst (shuffleWithSeed ''2-1-default'' [Some (10::nat), Some 20, Some 30]
          (snd (shuffleWithSeed ''2-1-default'' [Some (10::nat), Some 20, Some 30] sampleRuntime)))
      = fst (shuffleWithSeed ''2-1-default'' [Some 10, Some 20, Some 30] sampleRuntime)"
    using seeded_shuffle_deterministic
      [of "''2-1-default''" "[Some (10::nat), Some 20, Some 30]" sampleRuntime otherRuntime]
    by blast+
  show ?thesis
    using fresh other again shuffle_user2 by simp
qed

text \<open>
  Claim C4 (violated by the code). The shuffle is meant to return a permutation of its
  input. For the seed \<^verbatim>\<open>127.0.0.1-1-default\<close> (an anonymous caller on the loopback
  address asking for quiz 1) the 32-bit hash is negative, the remainder operator keeps
  the sign, the generator emits negative values and \<^verbatim>\<open>Math.floor\<close> yields negative
  swap indices. On the three-element input below the pass moves the second and third
  element into the properties \<^verbatim>\<open>"-2"\<close> and \<^verbatim>\<open>"-1"\<close> and leaves \<^verbatim>\<open>undefined\<close> in
  their places.
\<close>

theorem shuffle_negative_seed_loses_elements:
  "fst (shuffleArray [Some (1::nat), Some 2, Some 3] (createSeededRandom ''127.0.0.1-1-default''))
     = \<lparr>elems = [Some 1, None, None], props = [(- 2, Some 2), (- 1, Some 3)]\<rparr>"
  by (simp add: seed_hash_loopback shuffleArray_def shuffleLoop_step js_rem_def
      index_loopback_first index_loopback_second
      swapElements_def arr_get_def arr_set_def Let_def del: shuffleLoop.simps(2))

lemma first_quotient_loopback:
  "fdiv (- 54198) 233280 = - (8370579307415163 / 2 ^ 55)"
  unfolding fdiv_def
  using toDouble_certificate(2) [of "54198 / 233280" "- 3" 8370579307415163] by simp

text \<open>
  Claim C5 (violated by the code). Every emitted value is meant to lie in \<open>[0,1)\<close>.
  For the seed \<^verbatim>\<open>127.0.0.1-1-default\<close> the first call of the generator leaves
  \<open>-54198\<close> in \<^verbatim>\<open>hash\<close> and emits the double nearest to \<open>-54198 / 233280\<close>, about
  \<open>-0.2323\<close>, which is negative.
\<close>

theorem generator_emits_negative_value:
  "random_js (createSeededRandom ''127.0.0.1-1-default'')
     = (- (8370579307415163 / 2 ^ 55), - 54198)
   \<and> emitted ''127.0.0.1-1-default'' 0 < 0"
  by (simp add: emitted_def seed_hash_loopback random_js_def js_rem_def first_quotient_loopback)

section \<open>Properties of the scoring engine\<close>

subsection \<open>One iteration of the grading loop\<close>


text \<open>A matching submission: the insert is accepted exactly when the references of the
  submission exist, and then one row is added and the scores are updated.\<close>

lemma processAnswer_matched:
  assumes "findQuestion qz answer = Some q"
  shows "processAnswer d qz aid g answer =
     (if referencesExist d aid answer
      then Inr \<lparr>totalScore = (if determineCorrect q answer
                               then totalScore g + qq_points (question q) else totalScore g),
                maxScore = maxScore g + qq_points (question q),
                created = created g @
                  [\<lparr>ua_attemptId = aid, ua_questionId = questionId answer,
                    ua_answerId = orNull_int (answerId answer),
                    ua_textAnswer = orNull_string (textAnswer answer),
                    ua_isCorrect = determineCorrect q answer,
                    ua_pointsEarned = (if determineCorrect q answer
                                       then qq_points (question q) else 0)\<rparr>]\<rparr>
      else Inl ServerError)"
proof -
  have "createUserQuizAnswer d
          \<lparr>ua_attemptId = aid, ua_questionId = questionId answer,
           ua_answerId = orNull_int (answerId answer), ua_textAnswer = t,
           ua_isCorrect = c, ua_pointsEarned = p\<rparr>
      = (if referencesExist d aid answer
         then Inr \<lparr>ua_attemptId = aid, ua_questionId = questionId answer,
                   ua_answerId = orNull_int (answerId answer), ua_textAnswer = t,
                   ua_isCorrect = c, ua_pointsEarned = p\<rparr>
         else Inl ServerError)" for t c p
    by (cases "questionId answer"; cases "answerId answer")
       (auto simp: createUserQuizAnswer_def referencesExist_def orNull_int_def)
  then show ?thesis
    using assms by (simp add: processAnswer_def Let_def)
qed






lemma sample_run:
  "processAnswers (attemptOn sampleQuiz) sampleQuiz 1 initialGrading sampleSubmissions =
     Inr \<lparr>totalScore = 6, maxScore = 6,
          created = [\<lparr>ua_attemptId = 1, ua_questionId = Some 1, ua_answerId = Some 10,
                       ua_textAnswer = None, ua_isCorrect = True, ua_pointsEarned = 4\<rparr>,
                     \<lparr>ua_attemptId = 1, ua_questionId = Some 2, ua_answerId = None,
                       ua_textAnswer = Some '' PARIS '', ua_isCorrect = True, ua_pointsEarned = 2\<rparr>]\<rparr>"
  by code_simp



lemma penalty_run:
  "processAnswers (attemptOn penaltyQuiz) penaltyQuiz 1 initialGrading penaltySubmissions =
     Inr \<lparr>totalScore = - 5, maxScore = 5,
          created = [\<lparr>ua_attemptId = 1, ua_questionId = Some 1, ua_answerId = Some 11,
                       ua_textAnswer = None, ua_isCorrect = False, ua_pointsEarned = 0\<rparr>,
                     \<lparr>ua_attemptId = 1, ua_questionId = Some 2, ua_answerId = Some 20,
                       ua_textAnswer = None, ua_isCorrect = True, ua_pointsEarned = - 5\<rparr>]\<rparr>"
  by (simp add: penaltyQuiz_def penaltySubmissions_def initialGrading_def processAnswer_def
      findQuestion_def parseInt_def determineCorrect_def createUserQuizAnswer_def attemptOn_def
      orNull_int_def orNull_string_def Let_def)

lemma threshold_run:
  "processAnswers (attemptOn thresholdQuiz) thresholdQuiz 1 initialGrading thresholdSubmissions =
     Inr \<lparr>totalScore = 29, maxScore = 50,
          created = [\<lparr>ua_attemptId = 1, ua_questionId = Some 1, ua_answerId = Some 10,
                       ua_textAnswer = None, ua_isCorrect = True, ua_pointsEarned = 29\<rparr>,
                     \<lparr>ua_attemptId = 1, ua_questionId = Some 2, ua_answerId = Some 21,
                       ua_textAnswer = None, ua_isCorrect = False, ua_pointsEarned = 0\<rparr>]\<rparr>"
  by (simp add: thresholdQuiz_def thresholdSubmissions_def initialGrading_def processAnswer_def
      findQuestion_def parseInt_def determineCorrect_def createUserQuizAnswer_def attemptOn_def
      orNull_int_def orNull_string_def Let_def)

lemma duplicate_run:
  "processAnswers (attemptOn sampleQuiz) sampleQuiz 1 initialGrading duplicateSubmissions =
     Inr \<lparr>totalScore = 8, maxScore = 12,
          created = [\<lparr>ua_attemptId = 1, ua_questionId = Some 1, ua_answerId = Some 10,
                       ua_textAnswer = None, ua_isCorrect = True, ua_pointsEarned = 4\<rparr>,
                     \<lparr>ua_attemptId = 1, ua_questionId = Some 1, ua_answerId = Some 10,
                       ua_textAnswer = None, ua_isCorrect = True, ua_pointsEarned = 4\<rparr>,
                     \<lparr>ua_attemptId = 1, ua_questionId = Some 1, ua_answerId = Some 11,
                       ua_textAnswer = None, ua_isCorrect = False, ua_pointsEarned = 0\<rparr>]\<rparr>"
  by (simp add: sampleQuiz_def sampleChoice_def sampleBlank_def duplicateSubmissions_def
      initialGrading_def processAnswer_def findQuestion_def parseInt_def determineCorrect_def
      createUserQuizAnswer_def attemptOn_def orNull_int_def orNull_string_def Let_def)

text \<open>\<^verbatim>\<open>parseInt\<close> of the number \<^verbatim>\<open>1e21\<close> is 1: such a \<^verbatim>\<open>questionId\<close> resolves to the
  question with key 1.\<close>

lemma parseInt_sextillion: "parseInt (Some (10 ^ 21)) = Some 1"
  by code_simp




subsection \<open>Percentage and pass flag\<close>

lemma percentage_29_of_50: "percentageScoreOf 29 50 = 8162774324609023 / 2 ^ 47"
proof -
  have r: "fdiv 29 50 = of_int 5224175567749775 * 2 powi (- 53)"
    unfolding fdiv_def
    using toDouble_certificate(1) [of "29 / 50" "- 1" 5224175567749775] by simp
  have v: "fmul (of_int 5224175567749775 * 2 powi (- 53)) 100 = of_int 8162774324609023 * 2 powi (- 47)"
    unfolding fmul_def
    using toDouble_certificate(1) [of "of_int 5224175567749775 * 2 powi (- 53) * 100" "5" 8162774324609023] by simp
  have "percentageScoreOf 29 50 = fmul (fdiv 29 50) 100"
    by (simp add: percentageScoreOf_def)
  also have "\<dots> = of_int 8162774324609023 * 2 powi (- 47)"
    by (simp only: r v)
  also have "\<dots> = 8162774324609023 / 2 ^ 47"
    by simp
  finally show ?thesis .
qed

lemma percentage_penalty: "percentageScoreOf (- 5) 5 = - 100"
proof -
  have r: "fdiv (- 5) 5 = - (of_int 4503599627370496 * 2 powi (- 52))"
    unfolding fdiv_def
    using toDouble_certificate(2) [of "5 / 5" "0" 4503599627370496] by simp
  have v: "fmul (- (of_int 4503599627370496 * 2 powi (- 52))) 100 = - (of_int 7036874417766400 * 2 powi (- 46))"
    unfolding fmul_def
    using toDouble_certificate(2) [of "of_int 4503599627370496 * 2 powi (- 52) * 100" "6" 7036874417766400] by simp
  have "percentageScoreOf (- 5) 5 = fmul (fdiv (- 5) 5) 100"
    by (simp add: percentageScoreOf_def)
  also have "\<dots> = - (of_int 7036874417766400 * 2 powi (- 46))"
    by (simp only: r v)
  also have "\<dots> = - 100"
    by simp
  finally show ?thesis .
qed

lemma percentage_8_of_12: "percentageScoreOf 8 12 = 2345624805922133 / 2 ^ 45"
proof -
  have r: "fdiv 8 12 = of_int 6004799503160661 * 2 powi (- 53)"
    unfolding fdiv_def
    using toDouble_certificate(1) [of "8 / 12" "- 1" 6004799503160661] by simp
  have v: "fmul (of_int 6004799503160661 * 2 powi (- 53)) 100 = of_int 4691249611844266 * 2 powi (- 46)"
    unfolding fmul_def
    using toDouble_certificate(1) [of "of_int 6004799503160661 * 2 powi (- 53) * 100" "6" 4691249611844266] by simp
  have "percentageScoreOf 8 12 = fmul (fdiv 8 12) 100"
    by (simp add: percentageScoreOf_def)
  also have "\<dots> = of_int 4691249611844266 * 2 powi (- 46)"
    by (simp only: r v)
  also have "\<dots> = 2345624805922133 / 2 ^ 45"
    by simp
  finally show ?thesis .
qed

lemma percentage_6_of_6: "percentageScoreOf 6 6 = 100"
proof -
  have r: "fdiv 6 6 = of_int 4503599627370496 * 2 powi (- 52)"
    unfolding fdiv_def
    using toDouble_certificate(1) [of "6 / 6" "0" 4503599627370496] by simp
  have v: "fmul (of_int 4503599627370496 * 2 powi (- 52)) 100 = of_int 7036874417766400 * 2 powi (- 46)"
    unfolding fmul_def
    using toDouble_certificate(1) [of "of_int 4503599627370496 * 2 powi (- 52) * 100" "6" 7036874417766400] by simp
  have "percentageScoreOf 6 6 = fmul (fdiv 6 6) 100"
    by (simp add: percentageScoreOf_def)
  also have "\<dots> = of_int 7036874417766400 * 2 powi (- 46)"
    by (simp only: r v)
  also have "\<dots> = 100"
    by simp
  finally show ?thesis .
qed

text \<open>Full marks are exactly 100 per cent, and no marks exactly 0.\<close>

lemma toDouble_one: "toDouble 1 = 1"
  using toDouble_certificate(1) [of 1 0 "2 ^ 52"] by simp

lemma toDouble_hundred: "toDouble 100 = 100"
  using toDouble_certificate(1) [of 100 6 "100 * 2 ^ 46"] by simp

lemma percentage_full_marks: "0 < mx \<Longrightarrow> percentageScoreOf mx mx = 100"
  by (simp add: percentageScoreOf_def fdiv_def fmul_def toDouble_one toDouble_hundred)

lemma percentage_no_marks: "percentageScoreOf 0 mx = 0"
  by (simp add: percentageScoreOf_def fdiv_def fmul_def toDouble_def)

lemma percentage_no_questions: "mx \<le> 0 \<Longrightarrow> percentageScoreOf sc mx = 0"
  by (simp add: percentageScoreOf_def)

text \<open>The pass flag compares the computed percentage with a passing score that is set
  and not 0.\<close>

lemma passedOf_rule:
  "passedOf None pct" "passedOf (Some 0) pct"
  "p \<noteq> 0 \<Longrightarrow> passedOf (Some p) pct \<longleftrightarrow> of_int p \<le> pct"
  by (simp_all add: passedOf_def)

text \<open>\<^verbatim>\<open>100 * 29 / 50\<close>, computed on doubles in this order, is 58.\<close>

lemma percentage_in_the_order_of_the_specification: "fdiv (of_int (100 * 29)) 50 = 58"
  unfolding fdiv_def
  using toDouble_certificate(1) [of 58 5 "58 * 2 ^ 47"] by simp

text \<open>
  Claim C2 (violated by the code). The percentage is meant to be
  \<open>100 \<times> totalScore / maxScore\<close>, and the attempt to pass when the percentage reaches the
  passing score. The handlers compute \<^verbatim>\<open>(totalScore / maxScore) * 100\<close>: the quotient is
  rounded to a double before it is multiplied. With 29 points out of 50 the percentage
  is 58, and so is \<^verbatim>\<open>100 * 29 / 50\<close> computed on doubles in this order; but \<open>29 / 50\<close>
  rounds to a double below \<open>0.58\<close> and the product with 100 to one below 58
  (\<^verbatim>\<open>57.99999999999999\<close>). On a quiz with passing score 58 the attempt is marked as
  failed.
\<close>

theorem exact_threshold_is_missed:
  "processAnswers (attemptOn thresholdQuiz) thresholdQuiz 1 initialGrading thresholdSubmissions
     = Inr \<lparr>totalScore = 29, maxScore = 50,
            created = [\<lparr>ua_attemptId = 1, ua_questionId = Some 1, ua_answerId = Some 10,
                         ua_textAnswer = None, ua_isCorrect = True, ua_pointsEarned = 29\<rparr>,
                       \<lparr>ua_attemptId = 1, ua_questionId = Some 2, ua_answerId = Some 21,
                         ua_textAnswer = None, ua_isCorrect = False, ua_pointsEarned = 0\<rparr>]\<rparr>
   \<and> qz_passingScore (quiz thresholdQuiz) = Some 58
   \<and> (100 * 29 / 50 :: rat) = 58
   \<and> fdiv (of_int (100 * 29)) 50 = 58
   \<and> percentageScoreOf 29 50 = 8162774324609023 / 2 ^ 47
   \<and> percentageScoreOf 29 50 < 58
   \<and> \<not> passedOf (qz_passingScore (quiz thresholdQuiz)) (percentageScoreOf 29 50)"
proof -
  have ps: "qz_passingScore (quiz thresholdQuiz) = Some 58"
    by (simp add: thresholdQuiz_def)
  have below: "(8162774324609023 / 2 ^ 47 :: rat) < 58" by simp
  show ?thesis
    using threshold_run ps below percentage_in_the_order_of_the_specification
    by (simp add: percentage_29_of_50 passedOf_def)
qed

subsection \<open>Fill-in-the-blank grading\<close>

lemma determineCorrect_fill_blank:
  assumes "qq_questionType (question q) = fill_blank"
  shows "determineCorrect q answer \<longleftrightarrow>
           (\<exists>t. textAnswer answer = Some t \<and> t \<noteq> [] \<and> textMatches q t)"
  using assms
  by (fastforce simp: determineCorrect_def textMatches_def Let_def image_iff split: option.splits)

lemma processAnswer_last:
  assumes "findQuestion qz answer = Some q" and "processAnswer d qz aid g answer = Inr g'"
  shows "ua_isCorrect (last (created g')) = determineCorrect q answer"
    and "ua_pointsEarned (last (created g'))
           = (if determineCorrect q answer then qq_points (question q) else 0)"
    and "length (created g') = Suc (length (created g))"
  using assms(2) unfolding processAnswer_matched [OF assms(1)]
  by (auto split: if_splits)

lemma processAnswer_returns:
  assumes "findQuestion qz answer = Some q"
  shows "(\<exists>g'. processAnswer d qz aid g answer = Inr g') \<longleftrightarrow> referencesExist d aid answer"
  unfolding processAnswer_matched [OF assms] by simp

text \<open>
  Claim C6 fails as stated: the handler requires \<^verbatim>\<open>textAnswer\<close> to be truthy before it
  compares. The question below accepts a single space; the submitted empty text,
  lower-cased and trimmed, equals the lower-cased and trimmed accepted text, and is
  graded incorrect.
\<close>

theorem empty_text_counterexample:
  "qq_questionType (question spaceBlank) = fill_blank
   \<and> textAnswer emptyTextSubmission = Some []
   \<and> textMatches spaceBlank []
   \<and> \<not> determineCorrect spaceBlank emptyTextSubmission"
proof -
  have "textMatches spaceBlank []"
    by (simp add: textMatches_def spaceBlank_def trim_def toLowerCase_def lowerChar_def
        isWhiteSpace_def)
  moreover have "\<not> determineCorrect spaceBlank emptyTextSubmission"
    by (simp add: determineCorrect_def spaceBlank_def emptyTextSubmission_def)
  ultimately show ?thesis
    by (simp add: spaceBlank_def emptyTextSubmission_def)
qed

text \<open>
  Claim C6, amended. For every submission against a fill-in-the-blank question, the
  answer is graded correct exactly when a free-text answer was submitted, it is not
  the empty string, and, lower-cased and trimmed, it equals the lower-cased and
  trimmed text of at least one of the question's answers marked correct. The iteration
  stores a row exactly when the references of the submission exist; the row it stores
  carries that verdict, and as points earned the question's point value if the answer
  is correct and 0 otherwise.
\<close>

theorem fill_blank_grading:
  assumes "findQuestion qz answer = Some q"
    and "qq_questionType (question q) = fill_blank"
  shows "(determineCorrect q answer \<longleftrightarrow>
            (\<exists>t. textAnswer answer = Some t \<and> t \<noteq> [] \<and> textMatches q t))
       \<and> ((\<exists>g'. processAnswer d qz aid g answer = Inr g') \<longleftrightarrow> referencesExist d aid answer)
       \<and> (\<forall>g'. processAnswer d qz aid g answer = Inr g' \<longrightarrow>
            length (created g') = Suc (length (created g))
            \<and> (ua_isCorrect (last (created g')) \<longleftrightarrow>
                 (\<exists>t. textAnswer answer = Some t \<and> t \<noteq> [] \<and> textMatches q t))
            \<and> ua_pointsEarned (last (created g'))
                 = (if ua_isCorrect (last (created g')) then qq_points (question q) else 0))"
  using processAnswer_last [OF assms(1), of d aid g]
    processAnswer_returns [OF assms(1), of d aid g]
    determineCorrect_fill_blank [OF assms(2), of answer]
  by simp

theorem fill_blank_grading_witness:
  "textMatches sampleBlank '' PARIS ''
   \<and> referencesExist (attemptOn sampleQuiz) 1
        \<lparr>questionId = Some 2, answerId = None, textAnswer = Some '' PARIS ''\<rparr>
   \<and> determineCorrect sampleBlank
        \<lparr>questionId = Some 2, answerId = None, textAnswer = Some '' PARIS ''\<rparr>
   \<and> (\<exists>g'. processAnswer (attemptOn sampleQuiz) sampleQuiz 1 initialGrading
              \<lparr>questionId = Some 2, answerId = None, textAnswer = Some '' PARIS ''\<rparr> = Inr g'
            \<and> length (created g') = 1
            \<and> ua_isCorrect (last (created g'))
            \<and> ua_pointsEarned (last (created g')) = 2)"
proof -
  have found: "findQuestion sampleQuiz
      \<lparr>questionId = Some 2, answerId = None, textAnswer = Some '' PARIS ''\<rparr> = Some sampleBlank"
    by (simp add: findQuestion_def parseInt_def sampleQuiz_def sampleChoice_def sampleBlank_def)
  have kind: "qq_questionType (question sampleBlank) = fill_blank"
    and pts: "qq_points (question sampleBlank) = 2"
    by (simp_all add: sampleBlank_def)
  have match: "textMatches sampleBlank '' PARIS ''"
    by code_simp
  have exist: "referencesExist (attemptOn sampleQuiz) 1
      \<lparr>questionId = Some 2, answerId = None, textAnswer = Some '' PARIS ''\<rparr>"
    by (simp add: referencesExist_def attemptOn_def sampleQuiz_def sampleChoice_def
        sampleBlank_def)
  have start: "created initialGrading = []"
    by (simp add: initialGrading_def)
  note rule = fill_blank_grading [OF found kind, of "attemptOn sampleQuiz" 1 initialGrading]
  from rule exist obtain g'
    where run: "processAnswer (attemptOn sampleQuiz) sampleQuiz 1 initialGrading
        \<lparr>questionId = Some 2, answerId = None, textAnswer = Some '' PARIS ''\<rparr> = Inr g'"
    by blast
  with rule match pts start have "length (created g') = 1 \<and> ua_isCorrect (last (created g'))
      \<and> ua_pointsEarned (last (created g')) = 2"
    by auto
  moreover have "determineCorrect sampleBlank
      \<lparr>questionId = Some 2, answerId = None, textAnswer = Some '' PARIS ''\<rparr>"
    using rule match by auto
  ultimately show ?thesis
    using run match exist by auto
qed

subsection \<open>Score bounds\<close>

lemma processAnswer_bounds:
  assumes "\<forall>q \<in> set (questions qz). 0 \<le> qq_points (question q)"
    and "0 \<le> totalScore g" and "totalScore g \<le> maxScore g"
    and "processAnswer d qz aid g answer = Inr g'"
  shows "0 \<le> totalScore g' \<and> totalScore g' \<le> maxScore g'"
proof (cases "findQuestion qz answer")
  case None
  then show ?thesis using assms by (simp add: processAnswer_def)
next
  case (Some q)
  then have "q \<in> set (questions qz)"
    by (auto simp: findQuestion_def find_Some_iff)
  then have "0 \<le> qq_points (question q)" using assms(1) by blast
  then show ?thesis
    using assms(2,3,4) unfolding processAnswer_matched [OF Some]
    by (auto split: if_splits)
qed

lemma processAnswers_bounds:
  assumes "\<forall>q \<in> set (questions qz). 0 \<le> qq_points (question q)"
    and "0 \<le> totalScore g" and "totalScore g \<le> maxScore g"
    and "processAnswers d qz aid g xs = Inr g'"
  shows "0 \<le> totalScore g' \<and> totalScore g' \<le> maxScore g'"
  using assms(2,3,4)
proof (induction xs arbitrary: g)
  case Nil
  then show ?case by simp
next
  case (Cons a xs)
  show ?case
  proof (cases "processAnswer d qz aid g a")
    case (Inl e)
    then show ?thesis using Cons.prems(3) by simp
  next
    case (Inr g1)
    have "0 \<le> totalScore g1 \<and> totalScore g1 \<le> maxScore g1"
      using processAnswer_bounds [OF assms(1) Cons.prems(1,2) Inr] .
    moreover have "processAnswers d qz aid g1 xs = Inr g'"
      using Cons.prems(3) Inr by simp
    ultimately show ?thesis using Cons.IH [of g1] by simp
  qed
qed

text \<open>The rounded quotient of a score between 0 and the maximum stays between 0 and 1,
  and its rounded product with 100 between 0 and 100: the bounds are doubles.\<close>

lemma percentage_bounds:
  assumes "0 \<le> sc" and "sc \<le> mx"
  shows "0 \<le> percentageScoreOf sc mx \<and> percentageScoreOf sc mx \<le> 100"
proof (cases "0 < mx")
  case True
  define x :: rat where "x = of_int sc / of_int mx"
  have pos: "(0::rat) < of_int mx" using True by simp
  have x0: "0 \<le> x" using assms(1) pos by (simp add: x_def)
  have "(of_int sc :: rat) \<le> of_int mx" using assms(2) by simp
  then have "x \<le> 1" using pos by (simp add: x_def pos_divide_le_eq)
  then have x1: "x \<le> of_int 1 * 2 powi 0" by simp
  have x2: "x < 2 powi (0 + 53)" using \<open>x \<le> 1\<close> by (simp add: less_le_trans [rotated])
  define r where "r = toDouble x"
  have r0: "0 \<le> r" unfolding r_def by (rule toDouble_sign(1) [OF x0])
  have r1: "r \<le> 1" using toDouble_le [OF x0 x1 x2] by (simp add: r_def)
  have v0: "0 \<le> r * 100" using r0 by simp
  have v1: "r * 100 \<le> of_int 25 * 2 powi 2" using r1 by simp
  have v2: "r * 100 < 2 powi (2 + 53)" using r1 by (simp add: less_le_trans [rotated])
  have "0 \<le> toDouble (r * 100)" by (rule toDouble_sign(1) [OF v0])
  moreover have "toDouble (r * 100) \<le> 100" using toDouble_le [OF v0 v1 v2] by simp
  ultimately show ?thesis
    using True by (simp add: percentageScoreOf_def fdiv_def fmul_def r_def x_def)
next
  case False
  then show ?thesis by (simp add: percentageScoreOf_def)
qed

text \<open>
  Claim C10 fails as stated: nothing keeps a point value positive (the authoring path
  stores \<^verbatim>\<open>points || 1\<close>, the column is a signed integer). On the penalty quiz the wrong
  answer to the first question and the correct answer to the second leave
  \<open>totalScore = -5\<close> and \<open>maxScore = 5\<close>, and the percentage is \<open>-100\<close>.
\<close>

theorem negative_points_counterexample:
  "processAnswers (attemptOn penaltyQuiz) penaltyQuiz 1 initialGrading penaltySubmissions
     = Inr \<lparr>totalScore = - 5, maxScore = 5,
            created = [\<lparr>ua_attemptId = 1, ua_questionId = Some 1, ua_answerId = Some 11,
                         ua_textAnswer = None, ua_isCorrect = False, ua_pointsEarned = 0\<rparr>,
                       \<lparr>ua_attemptId = 1, ua_questionId = Some 2, ua_answerId = Some 20,
                         ua_textAnswer = None, ua_isCorrect = True, ua_pointsEarned = - 5\<rparr>]\<rparr>
   \<and> \<not> (0::int) \<le> - 5
   \<and> percentageScoreOf (- 5) 5 = - 100
   \<and> \<not> 0 \<le> percentageScoreOf (- 5) 5"
  using penalty_run by (simp add: percentage_penalty)

text \<open>
  Claim C10, amended. For every quiz whose questions all have a non-negative point
  value, and for every submission list --- also one with several submissions for the
  same question, each of which is scored and recorded on its own --- the grading loop
  ends with \<open>0 \<le> totalScore \<le> maxScore\<close>, and the percentage computed from these lies
  in \<open>[0,100]\<close>.
\<close>

theorem score_bounds:
  assumes "\<forall>q \<in> set (questions qz). 0 \<le> qq_points (question q)"
    and "processAnswers d qz aid initialGrading xs = Inr g"
  shows "0 \<le> totalScore g
       \<and> totalScore g \<le> maxScore g
       \<and> 0 \<le> percentageScoreOf (totalScore g) (maxScore g)
       \<and> percentageScoreOf (totalScore g) (maxScore g) \<le> 100"
proof -
  have b: "0 \<le> totalScore g \<and> totalScore g \<le> maxScore g"
    by (rule processAnswers_bounds [OF assms(1) _ _ assms(2)]) (simp_all add: initialGrading_def)
  then show ?thesis
    using percentage_bounds [of "totalScore g" "maxScore g"] by simp
qed

theorem score_bounds_witness:
  "map (\<lambda>q. qq_points (question q)) (questions sampleQuiz) = [4, 2]
   \<and> processAnswers (attemptOn sampleQuiz) sampleQuiz 1 initialGrading duplicateSubmissions
       = Inr \<lparr>totalScore = 8, maxScore = 12,
              created = [\<lparr>ua_attemptId = 1, ua_questionId = Some 1, ua_answerId = Some 10,
                           ua_textAnswer = None, ua_isCorrect = True, ua_pointsEarned = 4\<rparr>,
                         \<lparr>ua_attemptId = 1, ua_questionId = Some 1, ua_answerId = Some 10,
                           ua_textAnswer = None, ua_isCorrect = True, ua_pointsEarned = 4\<rparr>,
                         \<lparr>ua_attemptId = 1, ua_questionId = Some 1, ua_answerId = Some 11,
                           ua_textAnswer = None, ua_isCorrect = False, ua_pointsEarned = 0\<rparr>]\<rparr>
   \<and> 0 \<le> percentageScoreOf 8 12
   \<and> percentageScoreOf 8 12 \<le> 100"
proof -
  have pos: "\<forall>q \<in> set (questions sampleQuiz). 0 \<le> qq_points (question q)"
    by (simp add: sampleQuiz_def sampleChoice_def sampleBlank_def)
  have pts: "map (\<lambda>q. qq_points (question q)) (questions sampleQuiz) = [4, 2]"
    by (simp add: sampleQuiz_def sampleChoice_def sampleBlank_def)
  show ?thesis
    using score_bounds [OF pos duplicate_run] pts duplicate_run
    by simp
qed

section \<open>Properties of lookup, deletion and the quiz view\<close>

subsection \<open>Lookup modes\<close>

lemma find_conj_Some:
  "find P xs = Some z \<Longrightarrow> Q z \<Longrightarrow> find (\<lambda>x. P x \<and> Q x) xs = Some z"
  by (induction xs) (auto split: if_splits)

lemma assembleView_not_NotFound: "assembleView req z loaded \<noteq> Inl NotFound"
  by (simp add: assembleView_def split: option.splits)

lemma sample_quizzes: "quizzes sampleDb = [mockTestRow, sampleQuizRow]"
  by (simp add: sampleDb_def)

lemma sample_rows:
  "qz_id mockTestRow = 4" "qz_lessonId mockTestRow = None"
  "qz_id sampleQuizRow = 7" "qz_lessonId sampleQuizRow = Some 3"
  by (simp_all add: mockTestRow_def sampleQuizRow_def)

text \<open>
  Claim C7 fails as stated: \<^verbatim>\<open>getQuizById\<close> looks the quiz up by primary key alone.
  Quiz 4 of the sample database is a standalone mock test (its lesson reference is
  null), and the lesson-quiz lookup of 4 returns its view, not NotFound.
\<close>

theorem quiz_lookup_returns_mock_test:
  "qz_lessonId mockTestRow = None
   \<and> getQuizById sampleDb (plainRequest 4) =
       Inr \<lparr>v_quiz = mockTestRow,
            v_questions =
              [\<lparr>qv_id = 3, qv_questionText = ''g'', qv_questionType = true_false,
                qv_points = 4, qv_position = 0,
                qv_answers = [Some \<lparr>av_id = 30, av_answerText = ''true''\<rparr>,
                              Some \<lparr>av_id = 31, av_answerText = ''false''\<rparr>]\<rparr>],
            v_metadata = \<lparr>totalAvailableQuestions = 1, returnedQuestions = 1,
                           randomized = False, answersShuffled = False, seed = None\<rparr>\<rparr>"
  by (simp add: getQuizById_def plainRequest_def sampleDb_def mockTestRow_def sampleQuizRow_def
      sampleChoice_def sampleBlank_def assembleView_def loadQuestions_def
      questionAttributes_def answerAttributes_def)

text \<open>
  Claim C7, amended. A mock-test-only lookup of an identifier that belongs to
  lesson-bound quizzes only returns NotFound. The lesson-quiz lookup applies no filter
  on the lesson reference: it returns NotFound exactly when no quiz has the identifier,
  and for the identifier of a standalone mock test it returns what the mock-test
  lookup returns.
\<close>

theorem lookup_modes:
  "((\<forall>z \<in> set (quizzes d). qz_id z = vr_id req \<longrightarrow> qz_lessonId z \<noteq> None)
      \<longrightarrow> getMockTestById d req = Inl NotFound)
   \<and> (getQuizById d req = Inl NotFound \<longleftrightarrow> (\<forall>z \<in> set (quizzes d). qz_id z \<noteq> vr_id req))
   \<and> (\<forall>z. find (\<lambda>z. qz_id z = vr_id req) (quizzes d) = Some z \<and> qz_lessonId z = None
          \<longrightarrow> getQuizById d req = getMockTestById d req \<and> getQuizById d req \<noteq> Inl NotFound)"
proof (intro conjI allI impI)
  assume "\<forall>z \<in> set (quizzes d). qz_id z = vr_id req \<longrightarrow> qz_lessonId z \<noteq> None"
  then have "find (\<lambda>z. qz_id z = vr_id req \<and> qz_lessonId z = None) (quizzes d) = None"
    by (auto simp: find_None_iff)
  then show "getMockTestById d req = Inl NotFound"
    by (simp add: getMockTestById_def)
next
  show "getQuizById d req = Inl NotFound \<longleftrightarrow> (\<forall>z \<in> set (quizzes d). qz_id z \<noteq> vr_id req)"
  proof (cases "find (\<lambda>z. qz_id z = vr_id req) (quizzes d)")
    case None
    then have "\<forall>z \<in> set (quizzes d). qz_id z \<noteq> vr_id req"
      by (auto simp: find_None_iff)
    then show ?thesis
      using None by (simp add: getQuizById_def)
  next
    case (Some z)
    then have "z \<in> set (quizzes d)" and "qz_id z = vr_id req"
      by (auto simp: find_Some_iff)
    then show ?thesis
      using Some by (auto simp: getQuizById_def assembleView_not_NotFound)
  qed
next
  fix z
  assume a: "find (\<lambda>z. qz_id z = vr_id req) (quizzes d) = Some z \<and> qz_lessonId z = None"
  then have "find (\<lambda>z. qz_id z = vr_id req \<and> qz_lessonId z = None) (quizzes d) = Some z"
    by (simp add: find_conj_Some)
  then show "getQuizById d req = getMockTestById d req"
    using a by (simp add: getQuizById_def getMockTestById_def)
next
  fix z
  assume "find (\<lambda>z. qz_id z = vr_id req) (quizzes d) = Some z \<and> qz_lessonId z = None"
  then show "getQuizById d req \<noteq> Inl NotFound"
    by (simp add: getQuizById_def assembleView_not_NotFound)
qed

theorem lookup_modes_witness:
  "getMockTestById sampleDb (plainRequest 7) = Inl NotFound
   \<and> getQuizById sampleDb (plainRequest 5) = Inl NotFound
   \<and> getQuizById sampleDb (plainRequest 4) = getMockTestById sampleDb (plainRequest 4)"
proof -
  have bound: "\<forall>z \<in> set (quizzes sampleDb). qz_id z = vr_id (plainRequest 7) \<longrightarrow> qz_lessonId z \<noteq> None"
    by (simp add: sample_quizzes sample_rows plainRequest_def)
  have none: "\<forall>z \<in> set (quizzes sampleDb). qz_id z \<noteq> vr_id (plainRequest 5)"
    by (simp add: sample_quizzes sample_rows plainRequest_def)
  have mock: "find (\<lambda>z. qz_id z = vr_id (plainRequest 4)) (quizzes sampleDb) = Some mockTestRow
      \<and> qz_lessonId mockTestRow = None"
    by (simp add: sample_quizzes sample_rows plainRequest_def)
  show ?thesis
    using lookup_modes [of sampleDb "plainRequest 7", THEN conjunct1] bound
      lookup_modes [of sampleDb "plainRequest 5", THEN conjunct2, THEN conjunct1] none
      lookup_modes [of sampleDb "plainRequest 4", THEN conjunct2, THEN conjunct2] mock
    by blast
qed

subsection \<open>Deletion\<close>

lemma fold_destroyAnswersOf:
  "fold destroyAnswersOf qs d =
     d\<lparr>quizAnswers := filter (\<lambda>a. \<forall>q \<in> set qs. qa_questionId a \<noteq> qq_id q) (quizAnswers d)\<rparr>"
proof (induction qs arbitrary: d)
  case Nil
  then show ?case by simp
next
  case (Cons q qs)
  have "fold destroyAnswersOf (q # qs) d = fold destroyAnswersOf qs (destroyAnswersOf q d)"
    by simp
  also have "\<dots> = (destroyAnswersOf q d)\<lparr>quizAnswers :=
      filter (\<lambda>a. \<forall>q' \<in> set qs. qa_questionId a \<noteq> qq_id q')
        (quizAnswers (destroyAnswersOf q d))\<rparr>"
    by (rule Cons.IH)
  also have "\<dots> = d\<lparr>quizAnswers :=
      filter (\<lambda>a. \<forall>q' \<in> set (q # qs). qa_questionId a \<noteq> qq_id q') (quizAnswers d)\<rparr>"
    by (simp add: destroyAnswersOf_def)
  finally show ?case .
qed

lemma destroyTree_conflict:
  assumes "\<exists>a \<in> set (quizAttempts d). at_quizId a = ident"
  shows "destroyTree z ident d = (Inl Conflict, d)"
proof -
  have "filter (\<lambda>a. at_quizId a = ident) (quizAttempts d) \<noteq> []"
    using assms by (simp add: filter_empty_conv)
  then show ?thesis
    by (simp add: destroyTree_def)
qed

lemma destroyTree_cascade:
  assumes "\<forall>a \<in> set (quizAttempts d). at_quizId a \<noteq> ident"
  shows "destroyTree z ident d =
     (Inr (),
      d\<lparr>quizAnswers :=
          filter (\<lambda>a. \<forall>q \<in> set (filter (\<lambda>q. qq_quizId q = ident) (quizQuestions d)).
                    qa_questionId a \<noteq> qq_id q) (quizAnswers d),
        quizQuestions := filter (\<lambda>q. qq_quizId q \<noteq> ident) (quizQuestions d),
        quizzes := filter (\<lambda>y. qz_id y \<noteq> qz_id z) (quizzes d)\<rparr>)"
proof -
  have "filter (\<lambda>a. at_quizId a = ident) (quizAttempts d) = []"
    using assms by (simp add: filter_empty_conv)
  then show ?thesis
    by (simp add: destroyTree_def Let_def fold_destroyAnswersOf)
qed

lemma destroyTree_guardedCascade:
  assumes "qz_id z = ident"
  shows "guardedCascade ident d (destroyTree z ident d)"
proof (cases "\<exists>a \<in> set (quizAttempts d). at_quizId a = ident")
  case True
  then show ?thesis
    by (simp add: guardedCascade_def destroyTree_conflict)
next
  case False
  then have "\<forall>a \<in> set (quizAttempts d). at_quizId a \<noteq> ident" by simp
  then show ?thesis
    using False assms by (simp add: guardedCascade_def destroyTree_cascade)
qed

text \<open>
  Claim C8. For a quiz found by the request (by its key in \<^verbatim>\<open>deleteQuiz\<close>, by its key
  among the mock tests in \<^verbatim>\<open>deleteMockTest\<close>): if an attempt references it, the request
  fails with Conflict (status 400, ``cannot delete ... with existing attempts'') and
  the database is unchanged; otherwise the request succeeds and afterwards no quiz
  with that key, no question of it and no answer of one of its questions remains.
\<close>

theorem delete_guard_and_cascade:
  "(find (\<lambda>z. qz_id z = ident) (quizzes d) \<noteq> None
      \<longrightarrow> guardedCascade ident d (deleteQuiz ident d))
   \<and> (find (\<lambda>z. qz_id z = ident \<and> qz_lessonId z = None) (quizzes d) \<noteq> None
      \<longrightarrow> guardedCascade ident d (deleteMockTest ident d))"
proof (intro conjI impI)
  assume "find (\<lambda>z. qz_id z = ident) (quizzes d) \<noteq> None"
  then obtain z where z: "find (\<lambda>z. qz_id z = ident) (quizzes d) = Some z" by blast
  then have "qz_id z = ident" by (auto simp: find_Some_iff)
  then show "guardedCascade ident d (deleteQuiz ident d)"
    using z by (simp add: deleteQuiz_def destroyTree_guardedCascade)
next
  assume "find (\<lambda>z. qz_id z = ident \<and> qz_lessonId z = None) (quizzes d) \<noteq> None"
  then obtain z where z: "find (\<lambda>z. qz_id z = ident \<and> qz_lessonId z = None) (quizzes d) = Some z"
    by blast
  then have "qz_id z = ident" by (auto simp: find_Some_iff)
  then show "guardedCascade ident d (deleteMockTest ident d)"
    using z by (simp add: deleteMockTest_def destroyTree_guardedCascade)
qed

theorem delete_guard_and_cascade_witness:
  "deleteMockTest 4 attemptedDb = (Inl Conflict, attemptedDb)
   \<and> guardedCascade 7 sampleDb (deleteQuiz 7 sampleDb)
   \<and> fst (deleteQuiz 7 sampleDb) = Inr ()
   \<and> map qz_id (quizzes (snd (deleteQuiz 7 sampleDb))) = [4]
   \<and> map qq_id (quizQuestions (snd (deleteQuiz 7 sampleDb))) = [3]
   \<and> map qa_id (quizAnswers (snd (deleteQuiz 7 sampleDb))) = [30, 31]"
proof -
  have found_mock: "find (\<lambda>z. qz_id z = 4 \<and> qz_lessonId z = None) (quizzes attemptedDb) \<noteq> None"
    by (simp add: attemptedDb_def sample_quizzes sample_rows)
  have attempted: "\<exists>a \<in> set (quizAttempts attemptedDb). at_quizId a = 4"
    by (simp add: attemptedDb_def)
  have conflict: "deleteMockTest 4 attemptedDb = (Inl Conflict, attemptedDb)"
    using delete_guard_and_cascade [of 4 attemptedDb, THEN conjunct2] found_mock attempted
    by (simp add: guardedCascade_def)
  have found_quiz: "find (\<lambda>z. qz_id z = 7) (quizzes sampleDb) \<noteq> None"
    by (simp add: sample_quizzes sample_rows)
  have cascade: "guardedCascade 7 sampleDb (deleteQuiz 7 sampleDb)"
    using delete_guard_and_cascade [of 7 sampleDb, THEN conjunct1] found_quiz by simp
  have unattempted: "\<not> (\<exists>a \<in> set (quizAttempts sampleDb). at_quizId a = 7)"
    by (simp add: sampleDb_def)
  have succeeded: "fst (deleteQuiz 7 sampleDb) = Inr ()"
    using cascade unattempted by (simp add: guardedCascade_def)
  have left: "map qz_id (quizzes (snd (deleteQuiz 7 sampleDb))) = [4]"
    "map qq_id (quizQuestions (snd (deleteQuiz 7 sampleDb))) = [3]"
    "map qa_id (quizAnswers (snd (deleteQuiz 7 sampleDb))) = [30, 31]"
    by (simp_all add: deleteQuiz_def destroyTree_def Let_def destroyAnswersOf_def sampleDb_def
        mockTestRow_def sampleQuizRow_def sampleChoice_def sampleBlank_def)
  show ?thesis
    using conflict cascade succeeded left by simp
qed

subsection \<open>The quiz view does not depend on hidden columns\<close>

lemma insort_key_through:
  assumes "\<And>x. k (f x) = k x"
  shows "insort_key k (f x) (map f zs) = map f (insort_key k x zs)"
  by (induction zs) (simp_all add: assms)

lemma sort_key_through:
  assumes "\<And>x. k (f x) = k x"
  shows "sort_key k (map f zs) = map f (sort_key k zs)"
  by (induction zs) (simp_all add: insort_key_through [of k f, OF assms])

lemma query_through:
  assumes "\<And>x. g (f x) = g x" and "\<And>x. k (f x) = k x" and "\<And>x. P (f x) = P x"
  shows "map g (sort_key k (filter P xs)) = map g (sort_key k (filter P (map f xs)))"
proof -
  have "filter P (map f xs) = map f (filter P xs)"
    by (simp add: filter_map comp_def assms(3))
  then have "sort_key k (filter P (map f xs)) = map f (sort_key k (filter P xs))"
    by (simp add: sort_key_through [of k f, OF assms(2)])
  then show ?thesis
    by (simp add: comp_def assms(1))
qed

lemma query_agrees:
  assumes "map f xs = map f ys"
    and "\<And>x. g (f x) = g x" and "\<And>x. k (f x) = k x" and "\<And>x. P (f x) = P x"
  shows "map g (sort_key k (filter P xs)) = map g (sort_key k (filter P ys))"
  using query_through [of g f k P xs, OF assms(2,3,4)]
    query_through [of g f k P ys, OF assms(2,3,4)] assms(1)
  by simp

lemma questionAttributes_agrees:
  assumes "map hideAnswer (quizAnswers d) = map hideAnswer (quizAnswers d')"
  shows "questionAttributes d q = questionAttributes d' q"
proof -
  have "map (\<lambda>a. Some (answerAttributes a))
          (sort_key qa_id (filter (\<lambda>a. qa_questionId a = qq_id q) (quizAnswers d)))
      = map (\<lambda>a. Some (answerAttributes a))
          (sort_key qa_id (filter (\<lambda>a. qa_questionId a = qq_id q) (quizAnswers d')))"
    by (rule query_agrees [OF assms]) (simp_all add: hideAnswer_def answerAttributes_def)
  then show ?thesis
    by (simp add: questionAttributes_def)
qed

lemma questionAttributes_hidden: "questionAttributes d (hideQuestion q) = questionAttributes d q"
  by (simp add: questionAttributes_def hideQuestion_def)

lemma loadQuestions_agrees:
  assumes "samePublic d d'"
  shows "loadQuestions d quizId = loadQuestions d' quizId"
proof -
  have answers: "map hideAnswer (quizAnswers d) = map hideAnswer (quizAnswers d')"
    and questions: "map hideQuestion (quizQuestions d) = map hideQuestion (quizQuestions d')"
    using assms by (simp_all add: samePublic_def)
  have "questionAttributes d = questionAttributes d'"
    using questionAttributes_agrees [OF answers] by (intro ext)
  moreover have "map (questionAttributes d')
          (sort_key qq_position (filter (\<lambda>q. qq_quizId q = quizId) (quizQuestions d)))
      = map (questionAttributes d')
          (sort_key qq_position (filter (\<lambda>q. qq_quizId q = quizId) (quizQuestions d')))"
    by (rule query_agrees [OF questions])
       (simp_all add: questionAttributes_hidden, simp_all add: hideQuestion_def)
  ultimately show ?thesis
    by (simp add: loadQuestions_def)
qed

text \<open>
  Claim C9. The view of a quiz is built from the question attributes \<open>id\<close>, text, type,
  points and position and the answer attributes \<open>id\<close> and text alone (the fields of
  \<^typ>\<open>question_view\<close> and \<^typ>\<open>answer_view\<close>): for every request, with any combination
  of options, two databases that differ only in the correctness flags and explanations
  of their answers and in the explanations of their questions produce the same
  response, from \<^verbatim>\<open>getQuizById\<close> and from \<^verbatim>\<open>getMockTestById\<close>.
\<close>

theorem view_hides_flags_and_explanations:
  assumes "samePublic d d'"
  shows "getQuizById d req = getQuizById d' req \<and> getMockTestById d req = getMockTestById d' req"
proof -
  have rows: "quizzes d = quizzes d'"
    using assms by (simp add: samePublic_def)
  have loaded: "loadQuestions d = loadQuestions d'"
    by (intro ext) (rule loadQuestions_agrees [OF assms])
  show ?thesis
    unfolding getQuizById_def getMockTestById_def rows loaded by simp
qed

lemma sample_flipped_samePublic: "samePublic sampleDb flippedDb"
  by (simp add: samePublic_def flippedDb_def sampleDb_def sampleChoice_def sampleBlank_def
      hideQuestion_def hideAnswer_def)

theorem view_hides_flags_and_explanations_witness:
  "samePublic sampleDb flippedDb
   \<and> map qa_isCorrect (quizAnswers sampleDb) = [True, False, True, True, True, False]
   \<and> map qa_isCorrect (quizAnswers flippedDb) = [False, True, False, False, False, True]
   \<and> getQuizById sampleDb (randomRequest 7) = getQuizById flippedDb (randomRequest 7)
   \<and> getMockTestById sampleDb (plainRequest 4) = getMockTestById flippedDb (plainRequest 4)
   \<and> getMockTestById flippedDb (plainRequest 4) =
       Inr \<lparr>v_quiz = mockTestRow,
            v_questions =
              [\<lparr>qv_id = 3, qv_questionText = ''g'', qv_questionType = true_false,
                qv_points = 4, qv_position = 0,
                qv_answers = [Some \<lparr>av_id = 30, av_answerText = ''true''\<rparr>,
                              Some \<lparr>av_id = 31, av_answerText = ''false''\<rparr>]\<rparr>],
            v_metadata = \<lparr>totalAvailableQuestions = 1, returnedQuestions = 1,
                           randomized = False, answersShuffled = False, seed = None\<rparr>\<rparr>"
proof -
  have flags: "map qa_isCorrect (quizAnswers sampleDb) = [True, False, True, True, True, False]"
    "map qa_isCorrect (quizAnswers flippedDb) = [False, True, False, False, False, True]"
    by (simp_all add: flippedDb_def sampleDb_def sampleChoice_def sampleBlank_def)
  have plain: "getMockTestById flippedDb (plainRequest 4) =
       Inr \<lparr>v_quiz = mockTestRow,
            v_questions =
              [\<lparr>qv_id = 3, qv_questionText = ''g'', qv_questionType = true_false,
                qv_points = 4, qv_position = 0,
                qv_answers = [Some \<lparr>av_id = 30, av_answerText = ''true''\<rparr>,
                              Some \<lparr>av_id = 31, av_answerText = ''false''\<rparr>]\<rparr>],
            v_metadata = \<lparr>totalAvailableQuestions = 1, returnedQuestions = 1,
                           randomized = False, answersShuffled = False, seed = None\<rparr>\<rparr>"
    by (simp add: getMockTestById_def plainRequest_def flippedDb_def sampleDb_def mockTestRow_def
        sampleQuizRow_def sampleChoice_def sampleBlank_def assembleView_def loadQuestions_def
        questionAttributes_def answerAttributes_def)
  show ?thesis
    using view_hides_flags_and_explanations [OF sample_flipped_samePublic, of "randomRequest 7"]
      view_hides_flags_and_explanations [OF sample_flipped_samePublic, of "plainRequest 4"]
      sample_flipped_samePublic flags plain
    by simp
qed

end
